theory Spec2Isabelle
  imports Complex_Main "HOL-Library.Sublist"
begin

section \<open>JavaScript values\<close>

text \<open>
  The configuration code of the SDK (\<^verbatim>\<open>src/config.ts\<close>) and its cookie helper work on
  untyped run-time values: object literals built with spread syntax, the operators
  \<^verbatim>\<open>||\<close> and \<^verbatim>\<open>&&\<close>, optional chaining and \<^verbatim>\<open>typeof\<close>. The values are modelled by one
  datatype. An object is a finite map from property names to values; a property that is
  present with the value \<^verbatim>\<open>undefined\<close> is a different object from one where the property
  is absent, as spread syntax tells the two apart.

  Numbers are IEEE doubles in the source. No arithmetic is done on them by the code treated
  here: they are only produced by the built-in conversion of a string, tested by
  \<^verbatim>\<open>isNaN\<close> and tested for truthiness. A number is therefore its mathematical value or one
  of the three special values; the conversion of a string is a parameter of the model.
\<close>

datatype jsnum = NaN | PosInfinity | NegInfinity | Finite real

datatype jsval =
    JUndefined
  | JNull
  | JBool bool
  | JNum jsnum
  | JStr string
  | JArr "jsval list"
  | JObj "string \<Rightarrow> jsval option"
  | JFunction nat

type_synonym obj = "string \<Rightarrow> jsval option"

text \<open>ToBoolean: the values that \<^verbatim>\<open>||\<close>, \<^verbatim>\<open>&&\<close>, \<^verbatim>\<open>!\<close> and \<^verbatim>\<open>if\<close> take for false are
  \<^verbatim>\<open>undefined\<close>, \<^verbatim>\<open>null\<close>, \<^verbatim>\<open>false\<close>, \<^verbatim>\<open>0\<close>, \<^verbatim>\<open>NaN\<close> and the empty string.\<close>

fun truthy :: "jsval \<Rightarrow> bool" where
  "truthy JUndefined = False"
| "truthy JNull = False"
| "truthy (JBool b) = b"
| "truthy (JNum n) = (n \<noteq> NaN \<and> n \<noteq> Finite 0)"
| "truthy (JStr s) = (s \<noteq> [])"
| "truthy (JArr xs) = True"
| "truthy (JObj m) = True"
| "truthy (JFunction f) = True"

text \<open>\<^verbatim>\<open>a || b\<close> and \<^verbatim>\<open>a && b\<close> return one of their operands.\<close>

definition js_or :: "jsval \<Rightarrow> jsval \<Rightarrow> jsval" where
  "js_or a b = (if truthy a then a else b)"

definition js_and :: "jsval \<Rightarrow> jsval \<Rightarrow> jsval" where
  "js_and a b = (if truthy a then b else a)"

fun typeof :: "jsval \<Rightarrow> string" where
  "typeof JUndefined = ''undefined''"
| "typeof JNull = ''object''"
| "typeof (JBool b) = ''boolean''"
| "typeof (JNum n) = ''number''"
| "typeof (JStr s) = ''string''"
| "typeof (JArr xs) = ''object''"
| "typeof (JObj m) = ''object''"
| "typeof (JFunction f) = ''function''"

text \<open>The characters of a string that is one, the empty string otherwise (only used
  behind a \<^verbatim>\<open>typeof\<close> test).\<close>

fun str_of :: "jsval \<Rightarrow> string" where
  "str_of (JStr s) = s"
| "str_of _ = []"

subsection \<open>String methods\<close>

text \<open>
  Strings are lists of 8-bit characters, read as the code units U+0000 to U+00FF.
  \<^verbatim>\<open>toLowerCase\<close> maps the capital letters of that range to their small letters
  (A to Z, and U+00C0 to U+00DE without the multiplication sign U+00D7) and leaves the
  others alone. \<^verbatim>\<open>trim\<close> removes white space and line terminators from both ends; in
  this range they are TAB, LF, VT, FF, CR, SPACE and NO-BREAK SPACE.
\<close>

definition lowerChar :: "char \<Rightarrow> char" where
  "lowerChar c =
     (let n = (of_char c :: nat)
      in if (65 \<le> n \<and> n \<le> 90) \<or> (192 \<le> n \<and> n \<le> 222 \<and> n \<noteq> 215)
         then char_of (n + 32) else c)"

definition toLowerCase :: "string \<Rightarrow> string" where
  "toLowerCase s = map lowerChar s"

definition isWhiteSpace :: "char \<Rightarrow> bool" where
  "isWhiteSpace c = ((of_char c :: nat) \<in> {9, 10, 11, 12, 13, 32, 160})"

definition trim :: "string \<Rightarrow> string" where
  "trim s = rev (dropWhile isWhiteSpace (rev (dropWhile isWhiteSpace s)))"

text \<open>\<^verbatim>\<open>Array.prototype.includes\<close> on an array of strings.\<close>

definition includes_str :: "string list \<Rightarrow> string \<Rightarrow> bool" where
  "includes_str xs x = (x \<in> set xs)"

section \<open>Parsing of environment options (\<^verbatim>\<open>src/config.ts\<close>)\<close>

text \<open>
  \<^verbatim>\<open>
  const FALSEY = ['n', 'no', 'false', '0', 'off'];

  const bool = (param?: any, defaultValue?: boolean): boolean | undefined => {
    if (param === undefined || param === '') return defaultValue;
    if (param && typeof param === 'string') return !FALSEY.includes(param.toLowerCase().trim());
    return !!param;
  };
  \<close>
\<close>

definition FALSEY :: "string list" where
  "FALSEY = [''n'', ''no'', ''false'', ''0'', ''off'']"

definition bool :: "jsval \<Rightarrow> jsval \<Rightarrow> jsval" where
  "bool param defaultValue =
     (if param = JUndefined \<or> param = JStr [] then defaultValue
      else if truthy param \<and> typeof param = ''string''
        then JBool (\<not> includes_str FALSEY (trim (toLowerCase (str_of param))))
      else JBool (truthy param))"

text \<open>A variable of \<^verbatim>\<open>process.env\<close> is a string or \<^verbatim>\<open>undefined\<close>.\<close>

type_synonym env = "string \<Rightarrow> string option"

fun env_val :: "string option \<Rightarrow> jsval" where
  "env_val None = JUndefined"
| "env_val (Some s) = JStr s"

subsection \<open>Objects\<close>

text \<open>Reading a property of an object: \<^verbatim>\<open>undefined\<close> when it is absent.\<close>

definition get_prop :: "obj \<Rightarrow> string \<Rightarrow> jsval" where
  "get_prop m k = (case m k of None \<Rightarrow> JUndefined | Some v \<Rightarrow> v)"

text \<open>
  Optional chaining \<^verbatim>\<open>v?.k\<close>. On \<^verbatim>\<open>undefined\<close> and \<^verbatim>\<open>null\<close> it is \<^verbatim>\<open>undefined\<close>; on an
  object it reads the property. The code below applies it with the names \<^verbatim>\<open>cookie\<close>,
  \<^verbatim>\<open>callback\<close>, \<^verbatim>\<open>postLogoutRedirect\<close> and \<^verbatim>\<open>login\<close> only, which no boolean, number,
  string, array or function has as a property, so that it is \<^verbatim>\<open>undefined\<close> on these.
\<close>

fun opt_chain :: "jsval \<Rightarrow> string \<Rightarrow> jsval" where
  "opt_chain (JObj m) k = get_prop m k"
| "opt_chain _ k = JUndefined"

text \<open>The decimal numeral of a natural number, as array indices are written.\<close>

fun digit_char :: "nat \<Rightarrow> char" where
  "digit_char n = char_of (48 + n)"

fun decimal :: "nat \<Rightarrow> string" where
  "decimal n =
     (if n < 10 then [digit_char n] else decimal (n div 10) @ [digit_char (n mod 10)])"

declare decimal.simps [simp del]

text \<open>
  Spread syntax in an object literal, \<^verbatim>\<open>{ ...v }\<close>, copies the own enumerable properties
  of \<^verbatim>\<open>v\<close>: those of an object, the indexed elements of an array, the indexed characters
  of a string, and nothing for \<^verbatim>\<open>undefined\<close>, \<^verbatim>\<open>null\<close>, a boolean, a number or a function.
  For two objects \<^verbatim>\<open>{ ...a, ...b }\<close> is the map \<open>a ++ b\<close>.
\<close>

fun spread :: "jsval \<Rightarrow> obj" where
  "spread (JObj m) = m"
| "spread (JArr xs) = map_of (zip (map decimal [0..<length xs]) xs)"
| "spread (JStr s) = map_of (zip (map decimal [0..<length s]) (map (\<lambda>c. JStr [c]) s))"
| "spread _ = Map.empty"

text \<open>Reading along a path of property names, as \<^verbatim>\<open>config.session.cookie.domain\<close> does
  on a configuration whose inner objects are there.\<close>

fun get_path :: "obj \<Rightarrow> string list \<Rightarrow> jsval" where
  "get_path m [] = JObj m"
| "get_path m [k] = get_prop m k"
| "get_path m (k # ks) = (case m k of Some (JObj m') \<Rightarrow> get_path m' ks | _ \<Rightarrow> JUndefined)"

section \<open>The configuration (\<^verbatim>\<open>src/config.ts\<close>)\<close>

text \<open>
  \<^verbatim>\<open>
  const num = (param?: string): number | undefined =>
    (param === undefined || param === '' ? undefined : +param);

  export const getLoginUrl = (): string => {
    return process.env.NEXT_PUBLIC_ZAUTH_LOGIN || '/api/auth/login';
  };
  \<close>
  The conversion \<^verbatim>\<open>+param\<close> of a string to a number (the same as \<^verbatim>\<open>Number(param)\<close>) is
  the parameter \<open>toNumber\<close>.
\<close>

definition num :: "(string \<Rightarrow> jsnum) \<Rightarrow> string option \<Rightarrow> jsval" where
  "num toNumber param =
     (case param of None \<Rightarrow> JUndefined
      | Some s \<Rightarrow> if s = [] then JUndefined else JNum (toNumber s))"

definition getLoginUrl :: "env \<Rightarrow> jsval" where
  "getLoginUrl env =
     js_or (env_val (env ''NEXT_PUBLIC_ZAUTH_LOGIN'')) (JStr ''/api/auth/login'')"

text \<open>The test of the regular expression \<^verbatim>\<open>/^https?:\/\//\<close>.\<close>

definition test_http_scheme :: "string \<Rightarrow> bool" where
  "test_http_scheme s = (take 7 s = ''http://'' \<or> take 8 s = ''https://'')"

text \<open>
  \<open>getConfig\<close> reads the environment, merges it with the parameters into one object
  literal, hands that to \<^verbatim>\<open>getBaseConfig\<close> of the session layer, and builds the second
  configuration from the answer. The object literal is \<open>baseConfigParams\<close>; the spread
  \<^verbatim>\<open>...baseParams\<close> stands after the twelve properties read from the environment and
  before \<^verbatim>\<open>authorizationParams\<close>, \<^verbatim>\<open>session\<close> and \<^verbatim>\<open>routes\<close>, as in the source (lines 443
  to 486). \<^verbatim>\<open>const { organization, ...baseParams } = params\<close> takes \<^verbatim>\<open>organization\<close> out of
  the parameters.
\<close>

definition baseConfigParams :: "(string \<Rightarrow> jsnum) \<Rightarrow> env \<Rightarrow> obj \<Rightarrow> obj" where
  "baseConfigParams toNumber env params =
    (let ZAUTH_SECRET = env ''ZAUTH_SECRET'';
         ZAUTH_ISSUER_BASE_URL = env ''ZAUTH_ISSUER_BASE_URL'';
         ZAUTH_BASE_URL = env ''ZAUTH_BASE_URL'';
         ZAUTH_CLIENT_ID = env ''ZAUTH_CLIENT_ID'';
         ZAUTH_CLIENT_SECRET = env ''ZAUTH_CLIENT_SECRET'';
         ZAUTH_CLOCK_TOLERANCE = env ''ZAUTH_CLOCK_TOLERANCE'';
         ZAUTH_HTTP_TIMEOUT = env ''ZAUTH_HTTP_TIMEOUT'';
         ZAUTH_ENABLE_TELEMETRY = env ''ZAUTH_ENABLE_TELEMETRY'';
         ZAUTH_IDP_LOGOUT = env ''ZAUTH_IDP_LOGOUT'';
         ZAUTH_ID_TOKEN_SIGNING_ALG = env ''ZAUTH_ID_TOKEN_SIGNING_ALG'';
         ZAUTH_LEGACY_SAME_SITE_COOKIE = env ''ZAUTH_LEGACY_SAME_SITE_COOKIE'';
         ZAUTH_CALLBACK = env ''ZAUTH_CALLBACK'';
         ZAUTH_POST_LOGOUT_REDIRECT = env ''ZAUTH_POST_LOGOUT_REDIRECT'';
         ZAUTH_AUDIENCE = env ''ZAUTH_AUDIENCE'';
         ZAUTH_SCOPE = env ''ZAUTH_SCOPE'';
         ZAUTH_SESSION_NAME = env ''ZAUTH_SESSION_NAME'';
         ZAUTH_SESSION_ROLLING = env ''ZAUTH_SESSION_ROLLING'';
         ZAUTH_SESSION_ROLLING_DURATION = env ''ZAUTH_SESSION_ROLLING_DURATION'';
         ZAUTH_SESSION_ABSOLUTE_DURATION = env ''ZAUTH_SESSION_ABSOLUTE_DURATION'';
         ZAUTH_COOKIE_DOMAIN = env ''ZAUTH_COOKIE_DOMAIN'';
         ZAUTH_COOKIE_PATH = env ''ZAUTH_COOKIE_PATH'';
         ZAUTH_COOKIE_TRANSIENT = env ''ZAUTH_COOKIE_TRANSIENT'';
         ZAUTH_COOKIE_HTTP_ONLY = env ''ZAUTH_COOKIE_HTTP_ONLY'';
         ZAUTH_COOKIE_SECURE = env ''ZAUTH_COOKIE_SECURE'';
         ZAUTH_COOKIE_SAME_SITE = env ''ZAUTH_COOKIE_SAME_SITE'';
         baseURL =
           (if truthy (js_and (env_val ZAUTH_BASE_URL)
                          (JBool (\<not> test_http_scheme (str_of (env_val ZAUTH_BASE_URL)))))
            then JStr (''https://'' @ str_of (env_val ZAUTH_BASE_URL))
            else env_val ZAUTH_BASE_URL);
         baseParams = params(''organization'' := None)
     in [''secret'' \<mapsto> env_val ZAUTH_SECRET,
         ''issuerBaseURL'' \<mapsto> env_val ZAUTH_ISSUER_BASE_URL,
         ''baseURL'' \<mapsto> baseURL,
         ''clientID'' \<mapsto> env_val ZAUTH_CLIENT_ID,
         ''clientSecret'' \<mapsto> env_val ZAUTH_CLIENT_SECRET,
         ''clockTolerance'' \<mapsto> num toNumber ZAUTH_CLOCK_TOLERANCE,
         ''httpTimeout'' \<mapsto> num toNumber ZAUTH_HTTP_TIMEOUT,
         ''enableTelemetry'' \<mapsto> bool (env_val ZAUTH_ENABLE_TELEMETRY) JUndefined,
         ''idpLogout'' \<mapsto> bool (env_val ZAUTH_IDP_LOGOUT) (JBool True),
         ''zAuthLogout'' \<mapsto> bool (env_val ZAUTH_IDP_LOGOUT) (JBool True),
         ''idTokenSigningAlg'' \<mapsto> env_val ZAUTH_ID_TOKEN_SIGNING_ALG,
         ''legacySameSiteCookie'' \<mapsto> bool (env_val ZAUTH_LEGACY_SAME_SITE_COOKIE) JUndefined]
        ++ baseParams
        ++ [''authorizationParams'' \<mapsto> JObj
              ([''response_type'' \<mapsto> JStr ''code'',
                ''audience'' \<mapsto> env_val ZAUTH_AUDIENCE,
                ''scope'' \<mapsto> env_val ZAUTH_SCOPE]
               ++ spread (get_prop baseParams ''authorizationParams'')),
            ''session'' \<mapsto> JObj
              ([''name'' \<mapsto> env_val ZAUTH_SESSION_NAME,
                ''rolling'' \<mapsto> bool (env_val ZAUTH_SESSION_ROLLING) JUndefined,
                ''rollingDuration'' \<mapsto> num toNumber ZAUTH_SESSION_ROLLING_DURATION,
                ''absoluteDuration'' \<mapsto>
                  (if truthy (js_and (env_val ZAUTH_SESSION_ABSOLUTE_DURATION)
                                (JBool (toNumber (str_of (env_val ZAUTH_SESSION_ABSOLUTE_DURATION)) = NaN)))
                   then bool (env_val ZAUTH_SESSION_ABSOLUTE_DURATION) JUndefined
                   else num toNumber ZAUTH_SESSION_ABSOLUTE_DURATION)]
               ++ spread (get_prop baseParams ''session'')
               ++ [''cookie'' \<mapsto> JObj
                     ([''domain'' \<mapsto> env_val ZAUTH_COOKIE_DOMAIN,
                       ''path'' \<mapsto> js_or (env_val ZAUTH_COOKIE_PATH) (JStr ''/''),
                       ''transient'' \<mapsto> bool (env_val ZAUTH_COOKIE_TRANSIENT) JUndefined,
                       ''httpOnly'' \<mapsto> bool (env_val ZAUTH_COOKIE_HTTP_ONLY) JUndefined,
                       ''secure'' \<mapsto> bool (env_val ZAUTH_COOKIE_SECURE) JUndefined,
                       ''sameSite'' \<mapsto> env_val ZAUTH_COOKIE_SAME_SITE]
                      ++ spread (opt_chain (get_prop baseParams ''session'') ''cookie''))]),
            ''routes'' \<mapsto> JObj
              [''callback'' \<mapsto>
                 js_or (js_or (opt_chain (get_prop baseParams ''routes'') ''callback'')
                              (env_val ZAUTH_CALLBACK))
                       (JStr ''/api/auth/callback''),
               ''postLogoutRedirect'' \<mapsto>
                 js_or (opt_chain (get_prop baseParams ''routes'') ''postLogoutRedirect'')
                       (env_val ZAUTH_POST_LOGOUT_REDIRECT)]])"


text \<open>
  \<^verbatim>\<open>
  const nextConfig = {
    routes: {
      ...baseConfig.routes,
      login: baseParams.routes?.login || getLoginUrl()
    },
    identityClaimFilter: baseConfig.identityClaimFilter,
    organization: organization || ZAUTH_ORGANIZATION
  };
  \<close>
\<close>

definition nextConfig :: "env \<Rightarrow> obj \<Rightarrow> obj \<Rightarrow> obj" where
  "nextConfig env params baseConfig =
    (let ZAUTH_ORGANIZATION = env ''ZAUTH_ORGANIZATION'';
         organization = get_prop params ''organization'';
         baseParams = params(''organization'' := None)
     in [''routes'' \<mapsto> JObj
           (spread (get_prop baseConfig ''routes'')
            ++ [''login'' \<mapsto>
                  js_or (opt_chain (get_prop baseParams ''routes'') ''login'') (getLoginUrl env)]),
         ''identityClaimFilter'' \<mapsto> get_prop baseConfig ''identityClaimFilter'',
         ''organization'' \<mapsto> js_or organization (env_val ZAUTH_ORGANIZATION)])"

text \<open>
  \<^verbatim>\<open>getBaseConfig\<close> (imported from \<^verbatim>\<open>./zauth-session\<close>) validates the merged object and
  returns the base configuration or throws; it is a parameter, with the exception as the
  left result.
\<close>

definition getConfig ::
  "(string \<Rightarrow> jsnum) \<Rightarrow> (obj \<Rightarrow> 'e + obj) \<Rightarrow> env \<Rightarrow> obj \<Rightarrow> 'e + (obj \<times> obj)" where
  "getConfig toNumber getBaseConfig env params =
     (case getBaseConfig (baseConfigParams toNumber env params) of
        Inl e \<Rightarrow> Inl e
      | Inr baseConfig \<Rightarrow> Inr (baseConfig, nextConfig env params baseConfig))"

text \<open>A conversion of strings to numbers that knows no numeral, for the examples, and an
  environment and parameters that set the same options to different values.\<close>

definition no_numerals :: "string \<Rightarrow> jsnum" where
  "no_numerals s = NaN"

definition demo_env :: env where
  "demo_env =
     [''ZAUTH_CLIENT_ID'' \<mapsto> ''env-client'',
      ''ZAUTH_SCOPE'' \<mapsto> ''openid'',
      ''ZAUTH_SESSION_NAME'' \<mapsto> ''envSession'',
      ''ZAUTH_COOKIE_DOMAIN'' \<mapsto> ''env.example.org'',
      ''ZAUTH_CALLBACK'' \<mapsto> ''/env/callback'',
      ''NEXT_PUBLIC_ZAUTH_LOGIN'' \<mapsto> ''/env/login'',
      ''ZAUTH_ORGANIZATION'' \<mapsto> ''org_env'']"

definition demo_params :: obj where
  "demo_params =
     [''clientID'' \<mapsto> JStr ''my-client'',
      ''authorizationParams'' \<mapsto> JObj [''scope'' \<mapsto> JStr ''openid profile''],
      ''session'' \<mapsto> JObj
         [''name'' \<mapsto> JStr ''mySession'',
          ''cookie'' \<mapsto> JObj [''domain'' \<mapsto> JStr ''my.example.org'']],
      ''routes'' \<mapsto> JObj
         [''callback'' \<mapsto> JStr ''/my/callback'', ''login'' \<mapsto> JStr ''/my/login''],
      ''organization'' \<mapsto> JStr ''org_mine'']"

section \<open>Cookies on the response (the cookie utilities)\<close>

text \<open>
  \<^verbatim>\<open>
  export const set = (res: ServerResponse, name: string, value: string,
                      options: CookieSerializeOptions = {}): void => {
    const strCookie = serialize(name, value, options);

    let previousCookies = res.getHeader('Set-Cookie') || [];
    if (!Array.isArray(previousCookies)) {
      previousCookies = [previousCookies as string];
    }

    res.setHeader('Set-Cookie', [...previousCookies, strCookie]);
  };

  export const clear = (res: ServerResponse, name: string,
                        options: CookieSerializeOptions = {}): void => {
    set(res, name, '', { ...options, maxAge: 0 });
  };
  \<close>
  The response is Node's: a table of headers under their lower-case names, of which
  \<^verbatim>\<open>getHeader\<close> reads an entry (a number, a string, an array or \<^verbatim>\<open>undefined\<close>) and
  \<^verbatim>\<open>setHeader\<close> replaces one, unless the headers have been sent already, in which case it
  throws. Everything else a response carries is the field \<open>other\<close>. \<^verbatim>\<open>serialize\<close> is the
  function of the package \<^verbatim>\<open>cookie\<close>, a parameter here; it throws a \<^verbatim>\<open>TypeError\<close> on a
  name, value or option it refuses, which is the result \<open>None\<close>.
\<close>

datatype js_error = TypeError | ERR_HTTP_HEADERS_SENT

record 'r ServerResponse =
  headers :: "string \<Rightarrow> jsval option"
  headersSent :: bool
  other :: 'r

definition getHeader :: "'r ServerResponse \<Rightarrow> string \<Rightarrow> jsval" where
  "getHeader res name =
     (case headers res (toLowerCase name) of None \<Rightarrow> JUndefined | Some v \<Rightarrow> v)"

definition setHeader ::
  "'r ServerResponse \<Rightarrow> string \<Rightarrow> jsval \<Rightarrow> js_error + 'r ServerResponse" where
  "setHeader res name v =
     (if headersSent res then Inl ERR_HTTP_HEADERS_SENT
      else Inr (res\<lparr>headers := (headers res)(toLowerCase name \<mapsto> v)\<rparr>))"

fun isArray :: "jsval \<Rightarrow> bool" where
  "isArray (JArr xs) = True"
| "isArray _ = False"

text \<open>The elements that spreading an array into an array literal gives.\<close>

fun elements :: "jsval \<Rightarrow> jsval list" where
  "elements (JArr xs) = xs"
| "elements _ = []"

type_synonym serializer = "string \<Rightarrow> string \<Rightarrow> obj \<Rightarrow> string option"

definition set_cookie ::
  "serializer \<Rightarrow> 'r ServerResponse \<Rightarrow> string \<Rightarrow> string \<Rightarrow> obj
     \<Rightarrow> js_error + 'r ServerResponse" where
  "set_cookie serialize res name val options =
     (case serialize name val options of
        None \<Rightarrow> Inl TypeError
      | Some strCookie \<Rightarrow>
          (let previousCookies = js_or (getHeader res ''Set-Cookie'') (JArr []);
               previousCookies = (if \<not> isArray previousCookies then JArr [previousCookies]
                                  else previousCookies)
           in setHeader res ''Set-Cookie''
                (JArr (elements previousCookies @ [JStr strCookie]))))"

definition clear ::
  "serializer \<Rightarrow> 'r ServerResponse \<Rightarrow> string \<Rightarrow> obj \<Rightarrow> js_error + 'r ServerResponse" where
  "clear serialize res name options =
     set_cookie serialize res name [] (options ++ [''maxAge'' \<mapsto> JNum (Finite 0)])"

text \<open>A sequence of cookie-writing calls on one response; an exception ends it.\<close>

datatype cookie_call = SetCall string string obj | ClearCall string obj

fun write_cookie ::
  "serializer \<Rightarrow> 'r ServerResponse \<Rightarrow> cookie_call \<Rightarrow> js_error + 'r ServerResponse" where
  "write_cookie serialize res (SetCall name val options) =
     set_cookie serialize res name val options"
| "write_cookie serialize res (ClearCall name options) = clear serialize res name options"

fun write_cookies ::
  "serializer \<Rightarrow> 'r ServerResponse \<Rightarrow> cookie_call list \<Rightarrow> js_error + 'r ServerResponse" where
  "write_cookies serialize res [] = Inr res"
| "write_cookies serialize res (c # cs) =
     (case write_cookie serialize res c of
        Inl e \<Rightarrow> Inl e
      | Inr res' \<Rightarrow> write_cookies serialize res' cs)"

text \<open>The serialized cookie of a call: what it hands to \<^verbatim>\<open>serialize\<close>.\<close>

fun serialized :: "serializer \<Rightarrow> cookie_call \<Rightarrow> string option" where
  "serialized serialize (SetCall name val options) = serialize name val options"
| "serialized serialize (ClearCall name options) =
     serialize name [] (options ++ [''maxAge'' \<mapsto> JNum (Finite 0)])"

text \<open>A stand-in for \<^verbatim>\<open>serialize\<close> in the examples: \<^verbatim>\<open>name=value\<close>, whatever the options.\<close>

definition name_value :: serializer where
  "name_value name val options = Some (name @ ''='' @ val)"

text \<open>
  The values that a header holds, in the words of the specification ("existing
  \<^verbatim>\<open>Set-Cookie\<close> values"): none when the header is not set, the elements of an array,
  the value itself otherwise.
\<close>

fun header_values :: "jsval \<Rightarrow> jsval list" where
  "header_values JUndefined = []"
| "header_values (JArr xs) = xs"
| "header_values v = [v]"

section \<open>The instance of the SDK (the index module)\<close>

text \<open>
  \<^verbatim>\<open>
  let instance: SignInWithZeusAuth;

  function getInstance(): SignInWithZeusAuth {
    if (instance) {
      return instance;
    }
    instance = initZeusIdentity();
    return instance;
  }

  export const initZeusIdentity: InitZeusIdentity = (params) => {
    const { baseConfig, nextConfig } = getConfig(params);
    const getClient = clientFactory(baseConfig, { name: 'nextjs-zidentity', version });
    const transientStore = new TransientStore(baseConfig);
    const cookieStore = new CookieStore(baseConfig);
    const sessionCache = new SessionCache(baseConfig, cookieStore);
    const baseHandleLogin = baseLoginHandler(baseConfig, getClient, transientStore);
    ...
    return { getSession, getAccessToken, ..., handleAuth };
  };

  export const getSession: GetSession = (...args) => getInstance().getSession(...args);
  ...
  \<close>
  What matters here is which objects exist and which function holds which. An object
  made by \<^verbatim>\<open>new\<close> is an entry of a heap, named by its index; a function made by one of the
  factories is the factory applied to what it was given, which is what it holds on to.
  The classes and the factories themselves are in files that are not part of the sources.
\<close>

type_synonym ref = nat

datatype object =
    TransientStore obj
  | CookieStore obj
  | SessionCache obj ref

text \<open>The nine named exports of the form \<^verbatim>\<open>(...args) => getInstance().f(...args)\<close>
  (lines 103 to 112 of the index module, line 107 apart). Such a function holds no object
  itself: it reads the module's variable \<^verbatim>\<open>instance\<close> each time it is called.\<close>

datatype wrapper =
    GetSession | GetAccessToken | WithApiAuthRequired | WithApiAuthOptional
  | HandleLogin | HandleLogout | HandleCallback | HandleProfile | HandleAuth

datatype closure =
    Named wrapper
  | ClientFactory obj
  | SessionFactory ref
  | AccessTokenFactory obj closure ref
  | WithApiAuthRequiredFactory ref
  | WithApiAuthOptionalFactory ref
  | WithPageAuthRequiredFactory jsval closure
  | BaseLoginHandler obj closure ref
  | BaseLogoutHandler obj closure ref
  | BaseCallbackHandler obj closure ref ref
  | LoginHandler closure obj
  | LogoutHandler closure
  | CallbackHandler closure obj
  | ProfileHandler closure closure ref
  | HandlerFactory closure closure closure closure

record SignInWithZeusAuth =
  getSession :: closure
  getAccessToken :: closure
  withApiAuthRequired :: closure
  withApiAuthOptional :: closure
  withPageAuthRequired :: closure
  handleLogin :: closure
  handleLogout :: closure
  handleCallback :: closure
  handleProfile :: closure
  handleAuth :: closure

definition new :: "object list \<Rightarrow> object \<Rightarrow> ref \<times> object list" where
  "new heap ob = (length heap, heap @ [ob])"

definition initZeusIdentity ::
  "(string \<Rightarrow> jsnum) \<Rightarrow> (obj \<Rightarrow> 'e + obj) \<Rightarrow> env \<Rightarrow> obj \<Rightarrow> object list
     \<Rightarrow> 'e + (SignInWithZeusAuth \<times> object list)" where
  "initZeusIdentity toNumber getBaseConfig env params heap =
     (case getConfig toNumber getBaseConfig env params of
        Inl e \<Rightarrow> Inl e
      | Inr (baseConfig, nextConf) \<Rightarrow>
          (let getClient = ClientFactory baseConfig;
               (transientStore, heap) = new heap (TransientStore baseConfig);
               (cookieStore, heap) = new heap (CookieStore baseConfig);
               (sessionCache, heap) = new heap (SessionCache baseConfig cookieStore);
               baseHandleLogin = BaseLoginHandler baseConfig getClient transientStore;
               baseHandleLogout = BaseLogoutHandler baseConfig getClient sessionCache;
               baseHandleCallback =
                 BaseCallbackHandler baseConfig getClient sessionCache transientStore;
               getSession = SessionFactory sessionCache;
               getAccessToken = AccessTokenFactory nextConf getClient sessionCache;
               withApiAuthRequired = WithApiAuthRequiredFactory sessionCache;
               withApiAuthOptional = WithApiAuthOptionalFactory sessionCache;
               withPageAuthRequired =
                 WithPageAuthRequiredFactory (get_path nextConf [''routes'', ''login'']) getSession;
               handleLogin = LoginHandler baseHandleLogin nextConf;
               handleLogout = LogoutHandler baseHandleLogout;
               handleCallback = CallbackHandler baseHandleCallback nextConf;
               handleProfile = ProfileHandler getClient getAccessToken sessionCache;
               handleAuth = HandlerFactory handleLogin handleLogout handleCallback handleProfile
           in Inr (\<lparr>getSession = getSession,
                     getAccessToken = getAccessToken,
                     withApiAuthRequired = withApiAuthRequired,
                     withApiAuthOptional = withApiAuthOptional,
                     withPageAuthRequired = withPageAuthRequired,
                     handleLogin = handleLogin,
                     handleLogout = handleLogout,
                     handleCallback = handleCallback,
                     handleProfile = handleProfile,
                     handleAuth = handleAuth\<rparr>, heap)))"

text \<open>The state of the module: the variable \<^verbatim>\<open>instance\<close> and the objects made so far.\<close>

record module_state =
  instance_var :: "SignInWithZeusAuth option"
  heap :: "object list"

definition getInstance ::
  "(string \<Rightarrow> jsnum) \<Rightarrow> (obj \<Rightarrow> 'e + obj) \<Rightarrow> env \<Rightarrow> module_state
     \<Rightarrow> 'e + (SignInWithZeusAuth \<times> module_state)" where
  "getInstance toNumber getBaseConfig env st =
     (case instance_var st of
        Some i \<Rightarrow> Inr (i, st)
      | None \<Rightarrow>
          (case initZeusIdentity toNumber getBaseConfig env Map.empty (heap st) of
             Inl e \<Rightarrow> Inl e
           | Inr (i, heap') \<Rightarrow> Inr (i, st\<lparr>instance_var := Some i, heap := heap'\<rparr>)))"

text \<open>The \<^verbatim>\<open>SessionCache\<close> objects that a function holds, directly or through the
  functions it was built from. A named wrapper holds none.\<close>

fun session_caches :: "closure \<Rightarrow> ref set" where
  "session_caches (Named w) = {}"
| "session_caches (ClientFactory c) = {}"
| "session_caches (SessionFactory sc) = {sc}"
| "session_caches (AccessTokenFactory c g sc) = session_caches g \<union> {sc}"
| "session_caches (WithApiAuthRequiredFactory sc) = {sc}"
| "session_caches (WithApiAuthOptionalFactory sc) = {sc}"
| "session_caches (WithPageAuthRequiredFactory l g) = session_caches g"
| "session_caches (BaseLoginHandler c g ts) = session_caches g"
| "session_caches (BaseLogoutHandler c g sc) = session_caches g \<union> {sc}"
| "session_caches (BaseCallbackHandler c g sc ts) = session_caches g \<union> {sc}"
| "session_caches (LoginHandler h c) = session_caches h"
| "session_caches (LogoutHandler h) = session_caches h"
| "session_caches (CallbackHandler h c) = session_caches h"
| "session_caches (ProfileHandler g a sc) = session_caches g \<union> session_caches a \<union> {sc}"
| "session_caches (HandlerFactory a b c d) =
     session_caches a \<union> session_caches b \<union> session_caches c \<union> session_caches d"

text \<open>The named wrappers that a function holds.\<close>

fun wrappers :: "closure \<Rightarrow> wrapper set" where
  "wrappers (Named w) = {w}"
| "wrappers (ClientFactory c) = {}"
| "wrappers (SessionFactory sc) = {}"
| "wrappers (AccessTokenFactory c g sc) = wrappers g"
| "wrappers (WithApiAuthRequiredFactory sc) = {}"
| "wrappers (WithApiAuthOptionalFactory sc) = {}"
| "wrappers (WithPageAuthRequiredFactory l g) = wrappers g"
| "wrappers (BaseLoginHandler c g ts) = wrappers g"
| "wrappers (BaseLogoutHandler c g sc) = wrappers g"
| "wrappers (BaseCallbackHandler c g sc ts) = wrappers g"
| "wrappers (LoginHandler h c) = wrappers h"
| "wrappers (LogoutHandler h) = wrappers h"
| "wrappers (CallbackHandler h c) = wrappers h"
| "wrappers (ProfileHandler g a sc) = wrappers g \<union> wrappers a"
| "wrappers (HandlerFactory a b c d) = wrappers a \<union> wrappers b \<union> wrappers c \<union> wrappers d"

text \<open>The function of the instance that a named wrapper calls.\<close>

fun target :: "SignInWithZeusAuth \<Rightarrow> wrapper \<Rightarrow> closure" where
  "target i GetSession = getSession i"
| "target i GetAccessToken = getAccessToken i"
| "target i WithApiAuthRequired = withApiAuthRequired i"
| "target i WithApiAuthOptional = withApiAuthOptional i"
| "target i HandleLogin = handleLogin i"
| "target i HandleLogout = handleLogout i"
| "target i HandleCallback = handleCallback i"
| "target i HandleProfile = handleProfile i"
| "target i HandleAuth = handleAuth i"

text \<open>
  The \<^verbatim>\<open>SessionCache\<close> objects that a function reaches while the module's variable holds
  \<open>inst\<close>: those it holds, and those held by the functions of the instance that the named
  wrappers it holds call. While there is no instance a wrapper leads to no object.
\<close>

definition reachable_caches :: "SignInWithZeusAuth option \<Rightarrow> closure \<Rightarrow> ref set" where
  "reachable_caches inst f =
     session_caches f \<union>
     (case inst of
        None \<Rightarrow> {}
      | Some i \<Rightarrow> (\<Union>w \<in> wrappers f. session_caches (target i w)))"

text \<open>
  The tenth named export is not a wrapper. It is built when the module is loaded, from the
  login URL and the named wrapper of \<^verbatim>\<open>getSession\<close>:
  \<^verbatim>\<open>
  export const withPageAuthRequired: WithPageAuthRequired =
    withPageAuthRequiredFactory(getLoginUrl(), getSession);
  \<close>
\<close>

definition withPageAuthRequired_export :: "env \<Rightarrow> closure" where
  "withPageAuthRequired_export env =
     WithPageAuthRequiredFactory (getLoginUrl env) (Named GetSession)"

datatype export = Wrapper wrapper | WithPageAuthRequired

text \<open>
  A run of the process: calls of named exports, each for a request. The result lists, for
  each request, the \<^verbatim>\<open>SessionCache\<close> objects of the function that served it, and gives
  the state of the module at the end. A wrapper calls \<open>getInstance\<close> and then the function
  of the instance. The module-level \<^verbatim>\<open>withPageAuthRequired\<close> serves the request itself and
  reaches a \<^verbatim>\<open>SessionCache\<close> only through the wrapper of \<^verbatim>\<open>getSession\<close> that it holds; what
  the function made by the factory does is not in the sources, and a call it makes of that
  wrapper is a call of the named export \<^verbatim>\<open>getSession\<close>. The environment is read when the
  instance is made and when the module is loaded.
\<close>

fun serve ::
  "(string \<Rightarrow> jsnum) \<Rightarrow> (obj \<Rightarrow> 'e + obj) \<Rightarrow> env \<Rightarrow> module_state \<Rightarrow> (export \<times> 'q) list
     \<Rightarrow> 'e + (('q \<times> ref set) list \<times> module_state)" where
  "serve toNumber getBaseConfig env st [] = Inr ([], st)"
| "serve toNumber getBaseConfig env st ((Wrapper w, req) # calls) =
     (case getInstance toNumber getBaseConfig env st of
        Inl err \<Rightarrow> Inl err
      | Inr (i, st') \<Rightarrow>
          (case serve toNumber getBaseConfig env st' calls of
             Inl err \<Rightarrow> Inl err
           | Inr (used, st'') \<Rightarrow> Inr ((req, session_caches (target i w)) # used, st'')))"
| "serve toNumber getBaseConfig env st ((WithPageAuthRequired, req) # calls) =
     (case serve toNumber getBaseConfig env st calls of
        Inl err \<Rightarrow> Inl err
      | Inr (used, st'') \<Rightarrow>
          Inr ((req, reachable_caches (instance_var st) (withPageAuthRequired_export env)) # used,
               st''))"

section \<open>The session and flow engine of the specification\<close>

text \<open>Modelled from the spec: the error taxonomy of section 7, with \<^verbatim>\<open>TokenExpired\<close> of section 4.5.\<close>

datatype flow_error =
    ConfigurationError
  | DecryptionFailure
  | CsrfStateMismatch
  | TransientStateMissing
  | TokenExchangeFailure
  | TokenRefreshFailure
  | ClaimValidationFailure
  | SessionExpired
  | TokenExpired

text \<open>Modelled from the spec: the session payload and the session record of section 3; times
  are epoch seconds.\<close>

record SessionPayload =
  identityClaims :: "string \<Rightarrow> jsval option"
  accessToken :: "string option"
  refreshToken :: "string option"
  idToken :: "string option"
  tokenType :: "string option"
  expiresAt :: "int option"
  createdAt :: int

record SessionRecord =
  payload :: SessionPayload
  cookieExpiresAt :: int

text \<open>Modelled from the spec: the tokens that the external OIDC capability returns (section 6).\<close>

record Tokens =
  access_token :: string
  refresh_token :: "string option"
  id_token :: "string option"
  expires_in :: "int option"

text \<open>Modelled from the spec: what a request does that a claim counts, in order: the calls of
  the external OIDC capability over the network and the writes of the session cache.\<close>

datatype event =
    ExchangeCode string
  | Refresh string "string list"
  | Establish
  | Update
  | Destroy

fun is_network_call :: "event \<Rightarrow> bool" where
  "is_network_call (ExchangeCode c) = True"
| "is_network_call (Refresh r s) = True"
| "is_network_call _ = False"

text \<open>Modelled from the spec: the state a request works on, which is the transient entries and
  the session record that the browser's cookies carry, and the events so far.\<close>

record flow_state =
  transient :: "string \<Rightarrow> string option"
  session :: "SessionRecord option"
  events :: "event list"

text \<open>Modelled from the spec: the part of the configuration surface (section 6) that the flow
  reads.\<close>

record flow_config =
  issuer :: string
  clientID :: string
  postLogoutRedirect :: string
  idpLogout :: bool
  rollingDuration :: int
  absoluteDuration :: "int option"
  clockTolerance :: int
  identityClaimFilter :: "string list"
  organization :: "string option"

text \<open>Modelled from the spec: the external OIDC capability of section 6, its discovery metadata
  and its operations. A failed operation is \<open>None\<close>. \<open>endSessionUrl\<close> builds the redirect to
  an end-session endpoint with its \<^verbatim>\<open>post_logout_redirect_uri\<close>.\<close>

record Metadata =
  authorization_endpoint :: string
  token_endpoint :: string
  end_session_endpoint :: "string option"

record oidc =
  exchangeCode :: "string \<Rightarrow> string option \<Rightarrow> Tokens option"
  verifyIdToken :: "string \<Rightarrow> string option \<Rightarrow> (string \<Rightarrow> jsval option) option"
  refresh :: "string \<Rightarrow> string list \<Rightarrow> Tokens option"
  endSessionUrl :: "string \<Rightarrow> string \<Rightarrow> string"

text \<open>Modelled from the spec: the expiry policy of \<^verbatim>\<open>SessionCache.establish\<close> (section 4.4),
  "rolling: now + rollingDuration, capped by absoluteDuration from createdAt if absolute
  duration is configured as a number; if absolute duration is disabled, no cap".\<close>

definition computeExpiry :: "flow_config \<Rightarrow> int \<Rightarrow> SessionPayload \<Rightarrow> int" where
  "computeExpiry cfg now p =
     (case absoluteDuration cfg of
        None \<Rightarrow> now + rollingDuration cfg
      | Some a \<Rightarrow> min (now + rollingDuration cfg) (createdAt p + a))"

text \<open>Modelled from the spec: \<^verbatim>\<open>SessionCache.establish\<close>, \<^verbatim>\<open>update\<close>, \<^verbatim>\<open>destroy\<close> and \<^verbatim>\<open>get\<close> of
  section 4.4; the class \<^verbatim>\<open>SessionCache\<close> is imported from \<^verbatim>\<open>./session/\<close>, which is not
  among the sources. A session is rejected if \<^verbatim>\<open>now > cookieExpiresAt\<close>.\<close>

definition SessionCache_establish :: "flow_config \<Rightarrow> int \<Rightarrow> SessionPayload \<Rightarrow> flow_state \<Rightarrow> flow_state" where
  "SessionCache_establish cfg now p st =
     st\<lparr>session := Some \<lparr>payload = p, cookieExpiresAt = computeExpiry cfg now p\<rparr>,
        events := events st @ [Establish]\<rparr>"

text \<open>Modelled from the spec: see \<open>SessionCache_establish\<close>.\<close>

definition SessionCache_update :: "flow_config \<Rightarrow> int \<Rightarrow> SessionPayload \<Rightarrow> flow_state \<Rightarrow> flow_state" where
  "SessionCache_update cfg now p st =
     st\<lparr>session := Some \<lparr>payload = p, cookieExpiresAt = computeExpiry cfg now p\<rparr>,
        events := events st @ [Update]\<rparr>"

text \<open>Modelled from the spec: see \<open>SessionCache_establish\<close>.\<close>

definition SessionCache_destroy :: "flow_state \<Rightarrow> flow_state" where
  "SessionCache_destroy st = st\<lparr>session := None, events := events st @ [Destroy]\<rparr>"

text \<open>Modelled from the spec: see \<open>SessionCache_establish\<close>.\<close>

definition SessionCache_get :: "int \<Rightarrow> flow_state \<Rightarrow> SessionPayload option" where
  "SessionCache_get now st =
     (case session st of
        None \<Rightarrow> None
      | Some r \<Rightarrow> if now > cookieExpiresAt r then None else Some (payload r))"

text \<open>Modelled from the spec: the transient store of section 4.3 (the class \<^verbatim>\<open>TransientStore\<close>
  is imported from \<^verbatim>\<open>./zsession\<close>, not among the sources). The login persists the entries
  \<^verbatim>\<open>state\<close>, \<^verbatim>\<open>nonce\<close>, \<^verbatim>\<open>code_verifier\<close> and \<^verbatim>\<open>returnTo\<close>; consuming deletes them.\<close>

definition TransientStore_keys :: "string list" where
  "TransientStore_keys = [''state'', ''nonce'', ''code_verifier'', ''returnTo'']"

text \<open>Modelled from the spec: see \<open>TransientStore_keys\<close>.\<close>

definition TransientStore_consume :: "flow_state \<Rightarrow> flow_state" where
  "TransientStore_consume st =
     st\<lparr>transient := (\<lambda>k. if k \<in> set TransientStore_keys then None else transient st k)\<rparr>"

text \<open>Modelled from the spec: the query of a callback request, and a redirect as the reply.\<close>

record callback_request =
  state_param :: "string option"
  code_param :: string

datatype reply = Redirect string

text \<open>Modelled from the spec: \<^verbatim>\<open>FlowController.callback\<close> of section 4.5; the handler
  (\<^verbatim>\<open>callbackHandler\<close> of \<^verbatim>\<open>./zsession\<close> and \<^verbatim>\<open>./handlers\<close>) is not among the sources. In the
  order of the specification: it reads and consumes the transient store; verifies that the
  \<^verbatim>\<open>state\<close> parameter is exactly the stored value, failing closed otherwise; exchanges the
  code, passing the stored verifier, and has the ID token verified against the stored nonce;
  strips the filtered claims; checks the organization; applies the after-callback hook;
  calls \<open>SessionCache_establish\<close>; redirects to the stored \<^verbatim>\<open>returnTo\<close>. A transient entry
  that is needed and absent makes the flow fail closed (section 3). Where no ID token comes
  back there are no claims.\<close>

definition FlowController_callback ::
  "oidc \<Rightarrow> flow_config \<Rightarrow> (SessionPayload \<Rightarrow> SessionPayload) option \<Rightarrow> int
     \<Rightarrow> callback_request \<Rightarrow> flow_state \<Rightarrow> (flow_error + reply) \<times> flow_state" where
  "FlowController_callback ext cfg afterCallback now req st =
     (let stored = transient st;
          st1 = TransientStore_consume st
      in case stored ''state'' of
           None \<Rightarrow> (Inl TransientStateMissing, st1)
         | Some expected \<Rightarrow>
             if state_param req \<noteq> Some expected then (Inl CsrfStateMismatch, st1)
             else
               (case stored ''returnTo'' of
                  None \<Rightarrow> (Inl TransientStateMissing, st1)
                | Some returnTo \<Rightarrow>
                   (let st2 = st1\<lparr>events := events st1 @ [ExchangeCode (code_param req)]\<rparr>
                    in case exchangeCode ext (code_param req) (stored ''code_verifier'') of
                         None \<Rightarrow> (Inl TokenExchangeFailure, st2)
                       | Some tokens \<Rightarrow>
                          (case (case id_token tokens of
                                   None \<Rightarrow> Some Map.empty
                                 | Some t \<Rightarrow> verifyIdToken ext t (stored ''nonce'')) of
                             None \<Rightarrow> (Inl ClaimValidationFailure, st2)
                           | Some claims \<Rightarrow>
                               if (case organization cfg of
                                     None \<Rightarrow> False
                                   | Some org \<Rightarrow> claims ''org_id'' \<noteq> Some (JStr org))
                               then (Inl ClaimValidationFailure, st2)
                               else
                                 (let p = \<lparr>identityClaims =
                                              (\<lambda>k. if k \<in> set (identityClaimFilter cfg) then None
                                                   else claims k),
                                            accessToken = Some (access_token tokens),
                                            refreshToken = refresh_token tokens,
                                            idToken = id_token tokens,
                                            tokenType = None,
                                            expiresAt = (case expires_in tokens of
                                                           None \<Rightarrow> None
                                                         | Some d \<Rightarrow> Some (now + d)),
                                            createdAt = now\<rparr>;
                                      p' = (case afterCallback of
                                              None \<Rightarrow> p
                                            | Some hook \<Rightarrow> hook p)
                                  in (Inr (Redirect returnTo),
                                      SessionCache_establish cfg now p' st2))))))"

text \<open>Modelled from the spec: \<^verbatim>\<open>FlowController.logout\<close> of section 4.5 with the scenario of
  section 8 and the note of section 9; the code (\<^verbatim>\<open>clientFactory\<close> and \<^verbatim>\<open>logoutHandler\<close> of
  \<^verbatim>\<open>./zsession\<close>) is not among the sources, its test \<^verbatim>\<open>tests/zsession/client.test.ts\<close> is. It
  destroys the session; with IdP-logout enabled it redirects to the end-session URL of the
  identity provider, whose shape for an issuer that the issuer-string matching \<open>zeusIssuer\<close>
  accepts is \<^verbatim>\<open><issuer>/v2/logout?returnTo=<postLogoutRedirect>&client_id=<id>\<close>; otherwise it
  redirects to the configured post-logout URL. For another issuer without an end-session
  endpoint the specification names no target; the post-logout URL is taken.\<close>

definition FlowController_logout ::
  "oidc \<Rightarrow> (string \<Rightarrow> bool) \<Rightarrow> flow_config \<Rightarrow> Metadata \<Rightarrow> flow_state \<Rightarrow> reply \<times> flow_state" where
  "FlowController_logout ext zeusIssuer cfg meta st =
     (let st1 = SessionCache_destroy st
      in if idpLogout cfg
         then (if zeusIssuer (issuer cfg)
               then (Redirect (issuer cfg @ ''/v2/logout?returnTo='' @ postLogoutRedirect cfg
                                 @ ''&client_id='' @ clientID cfg), st1)
               else (case end_session_endpoint meta of
                       Some e \<Rightarrow> (Redirect (endSessionUrl ext e (postLogoutRedirect cfg)), st1)
                     | None \<Rightarrow> (Redirect (postLogoutRedirect cfg), st1)))
         else (Redirect (postLogoutRedirect cfg), st1))"

text \<open>Modelled from the spec: the options of \<^verbatim>\<open>getAccessToken\<close>, and the session payload after a
  refresh.\<close>

record access_token_options =
  scopes :: "string list"

text \<open>Modelled from the spec: the payload that \<^verbatim>\<open>SessionCache.update\<close> gets "with the new tokens".\<close>

definition refreshed :: "int \<Rightarrow> SessionPayload \<Rightarrow> Tokens \<Rightarrow> SessionPayload" where
  "refreshed now p tokens =
     p\<lparr>accessToken := Some (access_token tokens),
       refreshToken := (case refresh_token tokens of None \<Rightarrow> refreshToken p | Some r \<Rightarrow> Some r),
       idToken := (case id_token tokens of None \<Rightarrow> idToken p | Some t \<Rightarrow> Some t),
       expiresAt := (case expires_in tokens of None \<Rightarrow> None | Some d \<Rightarrow> Some (now + d))\<rparr>"

text \<open>Modelled from the spec: \<^verbatim>\<open>FlowController.getAccessToken\<close> of section 4.5; the code
  (\<^verbatim>\<open>accessTokenFactory\<close> of \<^verbatim>\<open>./session/\<close>) is not among the sources. It reads the current
  session; if \<^verbatim>\<open>expiresAt\<close> is within the clock tolerance of now, or has passed, and a
  refresh token is present, it calls the external refresh capability and then
  \<open>SessionCache_update\<close> with the new tokens; if the token has expired and no refresh token
  is present it fails with \<^verbatim>\<open>TokenExpired\<close>; if scopes are requested that the cached token
  was not issued for (\<open>issuedScopes\<close>, which the payload of section 3 does not hold, is a
  parameter), it forces a refresh that requests the superset of scopes. Without a session
  it fails as for an expired one.\<close>

definition FlowController_getAccessToken ::
  "oidc \<Rightarrow> (SessionPayload \<Rightarrow> string list) \<Rightarrow> flow_config \<Rightarrow> int \<Rightarrow> access_token_options
     \<Rightarrow> flow_state \<Rightarrow> (flow_error + string) \<times> flow_state" where
  "FlowController_getAccessToken ext issuedScopes cfg now opts st =
     (case SessionCache_get now st of
        None \<Rightarrow> (Inl SessionExpired, st)
      | Some p \<Rightarrow>
          (let expired = (case expiresAt p of
                            None \<Rightarrow> False
                          | Some t \<Rightarrow> t \<le> now + clockTolerance cfg);
               missing = (\<not> set (scopes opts) \<subseteq> set (issuedScopes p));
               wanted = remdups (issuedScopes p @ scopes opts)
           in if expired \<and> refreshToken p = None then (Inl TokenExpired, st)
              else if expired \<or> missing then
                (case refreshToken p of
                   None \<Rightarrow> (Inl TokenRefreshFailure, st)
                 | Some rt \<Rightarrow>
                     (let st1 = st\<lparr>events := events st @ [Refresh rt wanted]\<rparr>
                      in case refresh ext rt wanted of
                           None \<Rightarrow> (Inl TokenRefreshFailure, st1)
                         | Some tokens \<Rightarrow>
                             (Inr (access_token tokens),
                              SessionCache_update cfg now (refreshed now p tokens) st1)))
              else (case accessToken p of
                      None \<Rightarrow> (Inl TokenExpired, st)
                    | Some a \<Rightarrow> (Inr a, st))))"

section \<open>The cookie codec of the specification\<close>

text \<open>Modelled from the spec: the cipher of section 4.1 together with the two steps that
  section 4.2 puts around it ("serialize payload to a compact byte form, encrypt via Cipher,
  base64url-encode"); none of this code is among the sources. \<open>seal\<close> makes the blob of a
  payload under a secret with the expiry stamped in, \<open>expiry\<close> reads the stamp, which is
  checked before decryption, and \<open>unseal\<close> decodes, decrypts with the secrets in order and
  deserializes, \<open>None\<close> being a failure.\<close>

record ('p, 'k) Cipher =
  seal :: "'k \<Rightarrow> int \<Rightarrow> 'p \<Rightarrow> string"
  expiry :: "string \<Rightarrow> int option"
  unseal :: "'k list \<Rightarrow> string \<Rightarrow> 'p option"

text \<open>Modelled from the spec: "split into fixed-size chunks, each emitted as \<^verbatim>\<open>name.i\<close>"
  (section 4.2).\<close>

fun chunks :: "nat \<Rightarrow> 'a list \<Rightarrow> 'a list list" where
  "chunks n xs = (if n = 0 \<or> xs = [] then [] else take n xs # chunks n (drop n xs))"

declare chunks.simps [simp del]

text \<open>Modelled from the spec: the cookie name \<^verbatim>\<open><name>.<i>\<close> of chunk \<^verbatim>\<open>i\<close> (section 3).\<close>

definition chunk_name :: "string \<Rightarrow> nat \<Rightarrow> string" where
  "chunk_name name i = name @ ''.'' @ decimal i"

text \<open>Modelled from the spec: the results of \<^verbatim>\<open>CookieCodec.read\<close>, \<^verbatim>\<open>payload | absent | Invalid\<close>.\<close>

datatype 'p read_result = Payload 'p | Absent | Invalid

text \<open>Modelled from the spec: \<^verbatim>\<open>CookieCodec.write(payload, maxAgeSeconds)\<close> of section 4.2 (the
  class \<^verbatim>\<open>CookieStore\<close> of \<^verbatim>\<open>./zsession\<close> is not among the sources). The blob is made with
  the first secret; if its size exceeds the budget of one cookie it is split into chunks of
  that size, named \<^verbatim>\<open>name.0\<close>, \<^verbatim>\<open>name.1\<close>, and so on.\<close>

definition CookieCodec_write ::
  "('p, 'k) Cipher \<Rightarrow> nat \<Rightarrow> string \<Rightarrow> 'k \<Rightarrow> int \<Rightarrow> 'p \<Rightarrow> int
     \<Rightarrow> (string \<times> string) list" where
  "CookieCodec_write cipher budget name newest now p maxAgeSeconds =
     (let encoded = seal cipher newest (now + maxAgeSeconds) p
      in if length encoded \<le> budget then [(name, encoded)]
         else map (\<lambda>(i, c). (chunk_name name i, c)) (enumerate 0 (chunks budget encoded)))"

text \<open>Modelled from the spec: the chunks of a name among the cookies of a request, in index
  order, their count being given "implicitly by presence of sequential indices".\<close>

definition gather :: "string \<Rightarrow> (string \<times> string) list \<Rightarrow> string list" where
  "gather name cookies =
     List.map_filter (\<lambda>i. map_of cookies (chunk_name name i))
       (takeWhile (\<lambda>i. map_of cookies (chunk_name name i) \<noteq> None) [0..<length cookies])"

text \<open>Modelled from the spec: \<^verbatim>\<open>CookieCodec.read(cookies)\<close> of section 4.2. It prefers the
  unchunked cookie if present, gathers and concatenates the chunks otherwise, checks the
  expiry stamp and decrypts; a missing cookie, an expired stamp and a failed decryption are
  all treated as absent.\<close>

definition CookieCodec_read ::
  "('p, 'k) Cipher \<Rightarrow> string \<Rightarrow> 'k list \<Rightarrow> int \<Rightarrow> (string \<times> string) list \<Rightarrow> 'p read_result" where
  "CookieCodec_read cipher name secrets now cookies =
     (let encoded = (case map_of cookies name of
                       Some v \<Rightarrow> Some v
                     | None \<Rightarrow> (case gather name cookies of
                                  [] \<Rightarrow> None
                                | cs \<Rightarrow> Some (concat cs)))
      in case encoded of
           None \<Rightarrow> Absent
         | Some v \<Rightarrow>
             (case expiry cipher v of
                None \<Rightarrow> Absent
              | Some e \<Rightarrow>
                  if now > e then Absent
                  else (case unseal cipher secrets v of
                          None \<Rightarrow> Absent
                        | Some p \<Rightarrow> Payload p)))"

text \<open>The issuer-string matching of the examples accepts the issuer of the test.\<close>

definition is_zeus :: "string \<Rightarrow> bool" where
  "is_zeus i = (i = ''https://zeus.zidentity.io'')"

text \<open>The configuration of the test "should create custom logout for zeus auth"
  (\<^verbatim>\<open>tests/zsession/client.test.ts\<close>, lines 103 to 116), an external capability that always
  fails except for one refresh, and a session whose access token expired at second 999.\<close>

definition test_config :: flow_config where
  "test_config =
     \<lparr>issuer = ''https://zeus.zidentity.io'',
      clientID = ''__test_client_id__'',
      postLogoutRedirect = ''foo'',
      idpLogout = True,
      rollingDuration = 86400,
      absoluteDuration = Some 604800,
      clockTolerance = 60,
      identityClaimFilter = [''aud'', ''iss'', ''nonce''],
      organization = None\<rparr>"

definition test_oidc :: oidc where
  "test_oidc =
     \<lparr>exchangeCode = (\<lambda>code verifier. None),
      verifyIdToken = (\<lambda>token nonce. None),
      refresh = (\<lambda>rt wanted.
         if rt = ''refresh-1''
         then Some \<lparr>access_token = ''access-2'', refresh_token = None, id_token = None,
                     expires_in = Some 3600\<rparr>
         else None),
      endSessionUrl = (\<lambda>endpoint uri. endpoint @ ''?post_logout_redirect_uri='' @ uri)\<rparr>"

definition expired_session :: "string option \<Rightarrow> SessionRecord" where
  "expired_session rt =
     \<lparr>payload = \<lparr>identityClaims = [''sub'' \<mapsto> JStr ''user-1''],
                  accessToken = Some ''access-1'',
                  refreshToken = rt,
                  idToken = None,
                  tokenType = Some ''Bearer'',
                  expiresAt = Some 999,
                  createdAt = 0\<rparr>,
      cookieExpiresAt = 86400\<rparr>"

text \<open>A stand-in for the cipher that seals nothing: the blob is the payload.\<close>

definition plain_cipher :: "(string, unit) Cipher" where
  "plain_cipher =
     \<lparr>seal = (\<lambda>k e p. p), expiry = (\<lambda>v. Some 100), unseal = (\<lambda>ks v. Some v)\<rparr>"

section \<open>Properties of the string methods\<close>

lemma of_char_lowerChar:
  "(of_char (lowerChar c) :: nat) =
     (let n = of_char c
      in if (65 \<le> n \<and> n \<le> 90) \<or> (192 \<le> n \<and> n \<le> 222 \<and> n \<noteq> 215) then n + 32 else n)"
  by (simp add: lowerChar_def Let_def)

lemma isWhiteSpace_lowerChar: "isWhiteSpace (lowerChar c) = isWhiteSpace c"
  unfolding isWhiteSpace_def of_char_lowerChar Let_def by auto

lemma dropWhile_ws_lower:
  "dropWhile isWhiteSpace (map lowerChar s) = map lowerChar (dropWhile isWhiteSpace s)"
  by (induction s) (simp_all add: isWhiteSpace_lowerChar)

lemma trim_toLowerCase: "trim (toLowerCase s) = toLowerCase (trim s)"
  by (simp add: trim_def toLowerCase_def dropWhile_ws_lower rev_map)

section \<open>The boolean options\<close>

text \<open>
  Claim C8. For a boolean environment option, which reaches \<^verbatim>\<open>bool\<close> as a string or as
  \<^verbatim>\<open>undefined\<close>: an undefined or empty value yields the default that was passed; a
  non-empty string that, trimmed and put in lower case, is one of "n", "no", "false",
  "0", "off" yields \<^verbatim>\<open>false\<close>; every other non-empty string yields \<^verbatim>\<open>true\<close>.
\<close>

theorem bool_env_option:
  "bool (env_val None) d = d
   \<and> bool (env_val (Some [])) d = d
   \<and> (s \<noteq> [] \<longrightarrow> toLowerCase (trim s) \<in> set [''n'', ''no'', ''false'', ''0'', ''off'']
        \<longrightarrow> bool (env_val (Some s)) d = JBool False)
   \<and> (s \<noteq> [] \<longrightarrow> toLowerCase (trim s) \<notin> set [''n'', ''no'', ''false'', ''0'', ''off'']
        \<longrightarrow> bool (env_val (Some s)) d = JBool True)"
  by (simp add: bool_def includes_str_def FALSEY_def trim_toLowerCase)

theorem bool_env_option_witness:
  "bool (env_val None) (JBool True) = JBool True
   \<and> bool (env_val (Some [])) (JBool True) = JBool True
   \<and> bool (env_val (Some '' Off '')) (JBool True) = JBool False
   \<and> bool (env_val (Some ''yes'')) (JBool False) = JBool True"
proof -
  have a: "toLowerCase (trim '' Off '') \<in> set [''n'', ''no'', ''false'', ''0'', ''off'']"
    by code_simp
  have b: "toLowerCase (trim ''yes'') \<notin> set [''n'', ''no'', ''false'', ''0'', ''off'']"
    by code_simp
  have c: "'' Off '' \<noteq> []" and d: "''yes'' \<noteq> []" by simp_all
  have 1: "bool (env_val None) (JBool True) = JBool True"
    and 2: "bool (env_val (Some [])) (JBool True) = JBool True"
    and 3: "bool (env_val (Some '' Off '')) (JBool True) = JBool False"
    using bool_env_option [of "JBool True" "'' Off ''"] a c by blast+
  have 4: "bool (env_val (Some ''yes'')) (JBool False) = JBool True"
    using bool_env_option [of "JBool False" "''yes''"] b d by blast
  from 1 2 3 4 show ?thesis by simp
qed

section \<open>Cookie writes accumulate\<close>

lemma lower_Set_Cookie: "toLowerCase ''Set-Cookie'' = ''set-cookie''"
  by code_simp

lemma getHeader_Set_Cookie:
  "getHeader res ''Set-Cookie'' =
     (case headers res ''set-cookie'' of None \<Rightarrow> JUndefined | Some v \<Rightarrow> v)"
  by (simp add: getHeader_def lower_Set_Cookie)

text \<open>The previous cookies that \<open>set_cookie\<close> keeps.\<close>

lemma set_cookie_Inr:
  assumes "\<not> headersSent res" and "serialize name val options = Some c"
  shows "set_cookie serialize res name val options =
           Inr (res\<lparr>headers := (headers res)(''set-cookie'' \<mapsto>
                  JArr ((let v = getHeader res ''Set-Cookie''
                         in if isArray v then elements v else if truthy v then [v] else [])
                        @ [JStr c]))\<rparr>)"
  using assms
  by (cases "getHeader res ''Set-Cookie''")
     (simp_all add: set_cookie_def setHeader_def js_or_def Let_def lower_Set_Cookie)

lemma kept_header_values:
  "truthy v \<or> v = JUndefined \<Longrightarrow>
     (if isArray v then elements v else if truthy v then [v] else []) = header_values v"
  by (cases v) auto

lemma write_cookie_Inr:
  assumes "\<not> headersSent res" and "serialized serialize c = Some s"
    and "truthy (getHeader res ''Set-Cookie'') \<or> getHeader res ''Set-Cookie'' = JUndefined"
  shows "write_cookie serialize res c =
           Inr (res\<lparr>headers := (headers res)(''set-cookie'' \<mapsto>
                  JArr (header_values (getHeader res ''Set-Cookie'') @ [JStr s]))\<rparr>)"
  using assms
  by (cases c) (simp_all add: clear_def set_cookie_Inr Let_def kept_header_values)

text \<open>
  Claim C5, as the code has it. On a response whose headers have not been sent and whose
  \<^verbatim>\<open>Set-Cookie\<close> header is not set, is an array, or is a single value that JavaScript
  takes for true (a non-empty string, a number other than 0), every sequence of \<open>set\<close> and
  \<open>clear\<close> calls whose cookies \<^verbatim>\<open>serialize\<close> accepts returns, and afterwards the header
  holds the values it held before followed by the serialized cookies of the calls, one per
  call and in call order; no other header, and no other part of the response, has changed.
\<close>

theorem write_cookies_accumulate:
  assumes "\<not> headersSent res"
    and "truthy (getHeader res ''Set-Cookie'') \<or> getHeader res ''Set-Cookie'' = JUndefined"
    and "map (serialized serialize) cs = map Some cookies"
  shows "\<exists>res'. write_cookies serialize res cs = Inr res'
           \<and> header_values (getHeader res' ''Set-Cookie'')
               = header_values (getHeader res ''Set-Cookie'') @ map JStr cookies
           \<and> (\<forall>h. h \<noteq> ''set-cookie'' \<longrightarrow> headers res' h = headers res h)
           \<and> headersSent res' = headersSent res
           \<and> other res' = other res"
  using assms
proof (induction cs arbitrary: res cookies)
  case Nil
  then show ?case by simp
next
  case (Cons c cs)
  from Cons.prems(3) obtain s rest where ck: "cookies = s # rest"
    and s: "serialized serialize c = Some s"
    and rest: "map (serialized serialize) cs = map Some rest"
    by (cases cookies) auto
  let ?r = "res\<lparr>headers := (headers res)(''set-cookie'' \<mapsto>
                  JArr (header_values (getHeader res ''Set-Cookie'') @ [JStr s]))\<rparr>"
  have step: "write_cookie serialize res c = Inr ?r"
    using write_cookie_Inr [OF Cons.prems(1) s Cons.prems(2)] .
  have hs: "\<not> headersSent ?r" using Cons.prems(1) by simp
  have hv: "getHeader ?r ''Set-Cookie'' = JArr (header_values (getHeader res ''Set-Cookie'') @ [JStr s])"
    by (simp add: getHeader_Set_Cookie)
  have tr: "truthy (getHeader ?r ''Set-Cookie'') \<or> getHeader ?r ''Set-Cookie'' = JUndefined"
    by (simp add: hv)
  from Cons.IH [OF hs tr rest] obtain res' where
    r: "write_cookies serialize ?r cs = Inr res'"
    and v: "header_values (getHeader res' ''Set-Cookie'')
               = header_values (getHeader ?r ''Set-Cookie'') @ map JStr rest"
    and f: "\<forall>h. h \<noteq> ''set-cookie'' \<longrightarrow> headers res' h = headers ?r h"
    and hs': "headersSent res' = headersSent ?r"
    and o: "other res' = other ?r"
    by blast
  have "write_cookies serialize res (c # cs) = Inr res'"
    by (simp add: step r)
  moreover have "header_values (getHeader res' ''Set-Cookie'')
               = header_values (getHeader res ''Set-Cookie'') @ map JStr cookies"
    by (simp add: v hv ck)
  moreover have "\<forall>h. h \<noteq> ''set-cookie'' \<longrightarrow> headers res' h = headers res h"
    using f by simp
  moreover have "headersSent res' = headersSent res" using hs' by simp
  moreover have "other res' = other res" using o by simp
  ultimately show ?case by blast
qed


theorem write_cookies_accumulate_witness:
  "\<exists>res'. write_cookies (\<lambda>n v opts. Some (n @ ''='' @ v))
             \<lparr>headers = [''set-cookie'' \<mapsto> JStr ''x=1'', ''content-type'' \<mapsto> JStr ''text/html''],
              headersSent = False, other = (200::nat)\<rparr>
             [SetCall ''a'' ''b'' Map.empty, ClearCall ''c'' Map.empty] = Inr res'
         \<and> header_values (getHeader res' ''Set-Cookie'') = [JStr ''x=1'', JStr ''a=b'', JStr ''c='']
         \<and> headers res' ''content-type'' = Some (JStr ''text/html'')
         \<and> headersSent res' = False
         \<and> other res' = 200"
proof -
  let ?ser = "\<lambda>n v opts. Some (n @ ''='' @ v)"
  let ?res = "\<lparr>headers = [''set-cookie'' \<mapsto> JStr ''x=1'', ''content-type'' \<mapsto> JStr ''text/html''],
              headersSent = False, other = (200::nat)\<rparr>"
  have 1: "\<not> headersSent ?res" by simp
  have 2: "truthy (getHeader ?res ''Set-Cookie'') \<or> getHeader ?res ''Set-Cookie'' = JUndefined"
    by (simp add: getHeader_Set_Cookie)
  have 3: "map (serialized ?ser) [SetCall ''a'' ''b'' Map.empty, ClearCall ''c'' Map.empty]
             = map Some [''a=b'', ''c='']"
    by simp
  from write_cookies_accumulate [OF 1 2 3] obtain res' where
    "write_cookies ?ser ?res [SetCall ''a'' ''b'' Map.empty, ClearCall ''c'' Map.empty] = Inr res'"
    "header_values (getHeader res' ''Set-Cookie'')
       = header_values (getHeader ?res ''Set-Cookie'') @ map JStr [''a=b'', ''c='']"
    "\<forall>h. h \<noteq> ''set-cookie'' \<longrightarrow> headers res' h = headers ?res h"
    "headersSent res' = headersSent ?res" "other res' = other ?res"
    by blast
  then show ?thesis
    by (simp add: getHeader_Set_Cookie)
qed

text \<open>
  Claim C5 as the specification words it, for every response, fails where the header
  holds a single empty string: \<^verbatim>\<open>'' || []\<close> is \<^verbatim>\<open>[]\<close>, so the value that was there is
  dropped and the header ends as the new cookie alone, not as the old value followed by it.
\<close>

theorem set_cookie_empty_header_counterexample:
  "set_cookie name_value
       \<lparr>headers = [''set-cookie'' \<mapsto> JStr []], headersSent = False, other = ()\<rparr>
       ''a'' ''b'' Map.empty
     = Inr \<lparr>headers = [''set-cookie'' \<mapsto> JArr [JStr ''a=b'']], headersSent = False, other = ()\<rparr>
   \<and> header_values (getHeader \<lparr>headers = [''set-cookie'' \<mapsto> JArr [JStr ''a=b'']],
                                headersSent = False, other = ()\<rparr> ''Set-Cookie'')
      = [JStr ''a=b'']
   \<and> header_values (getHeader \<lparr>headers = [''set-cookie'' \<mapsto> JStr []],
                                headersSent = False, other = ()\<rparr> ''Set-Cookie'') @ [JStr ''a=b'']
      = [JStr [], JStr ''a=b'']"
  by (simp add: name_value_def set_cookie_def setHeader_def js_or_def getHeader_Set_Cookie lower_Set_Cookie)

section \<open>Explicit parameters and the environment\<close>

lemma take_length_prefix: "(take (length p) s = p) = prefix p s"
  by (metis prefix_def append_eq_conv_conj take_is_prefix)

lemma test_http_scheme_prefix:
  "test_http_scheme s = (prefix ''http://'' s \<or> prefix ''https://'' s)"
proof -
  have l7: "length ''http://'' = 7" and l8: "length ''https://'' = 8" by simp_all
  have "(take (length ''http://'') s = ''http://'') = prefix ''http://'' s"
    and "(take (length ''https://'') s = ''https://'') = prefix ''https://'' s"
    by (rule take_length_prefix)+
  then have "(take 7 s = ''http://'') = prefix ''http://'' s"
    and "(take 8 s = ''https://'') = prefix ''https://'' s"
    unfolding l7 l8 by blast+
  then show ?thesis
    unfolding test_http_scheme_def by blast
qed

lemma lower_trim_false: "trim (toLowerCase ''false'') = ''false''"
  by code_simp

text \<open>
  Claim C6, as the code has it. In the object that \<open>getConfig\<close> hands to
  \<^verbatim>\<open>getBaseConfig\<close>, and in the second configuration it builds, a parameter that is passed
  stands with the value passed, whatever the environment holds: every top-level property
  (the merged objects \<^verbatim>\<open>authorizationParams\<close>, \<^verbatim>\<open>session\<close>, \<^verbatim>\<open>routes\<close> and
  \<^verbatim>\<open>organization\<close> apart), every property of \<^verbatim>\<open>authorizationParams\<close>, of \<^verbatim>\<open>session\<close> and
  of \<^verbatim>\<open>session.cookie\<close>; and \<^verbatim>\<open>routes.callback\<close>, \<^verbatim>\<open>routes.postLogoutRedirect\<close>,
  \<^verbatim>\<open>routes.login\<close> and \<^verbatim>\<open>organization\<close> when the value passed is one that JavaScript takes
  for true (for a string: not empty), these four being merged with \<^verbatim>\<open>||\<close>. The base
  configuration of the result is the answer of \<^verbatim>\<open>getBaseConfig\<close> to that object.
\<close>

theorem getConfig_explicit_overrides:
  "(getConfig toNumber getBaseConfig env params = Inr (bc, nc) \<longrightarrow>
      getBaseConfig (baseConfigParams toNumber env params) = Inr bc
      \<and> nc = nextConfig env params bc)
   \<and> (k \<notin> {''organization'', ''authorizationParams'', ''session'', ''routes''}
        \<and> params k = Some v \<longrightarrow>
      get_path (baseConfigParams toNumber env params) [k] = v)
   \<and> (params ''authorizationParams'' = Some (JObj a) \<and> a k = Some v \<longrightarrow>
      get_path (baseConfigParams toNumber env params) [''authorizationParams'', k] = v)
   \<and> (params ''session'' = Some (JObj s) \<and> k \<noteq> ''cookie'' \<and> s k = Some v \<longrightarrow>
      get_path (baseConfigParams toNumber env params) [''session'', k] = v)
   \<and> (params ''session'' = Some (JObj s) \<and> s ''cookie'' = Some (JObj c) \<and> c k = Some v \<longrightarrow>
      get_path (baseConfigParams toNumber env params) [''session'', ''cookie'', k] = v)
   \<and> (params ''routes'' = Some (JObj r) \<and> k \<in> {''callback'', ''postLogoutRedirect''}
        \<and> r k = Some v \<and> truthy v \<longrightarrow>
      get_path (baseConfigParams toNumber env params) [''routes'', k] = v)
   \<and> (params ''routes'' = Some (JObj r) \<and> r ''login'' = Some v \<and> truthy v \<longrightarrow>
      get_path (nextConfig env params bc) [''routes'', ''login''] = v)
   \<and> (params ''organization'' = Some v \<and> truthy v \<longrightarrow>
      get_path (nextConfig env params bc) [''organization''] = v)"
proof -
  have 0: "getConfig toNumber getBaseConfig env params = Inr (bc, nc) \<longrightarrow>
      getBaseConfig (baseConfigParams toNumber env params) = Inr bc
      \<and> nc = nextConfig env params bc"
    by (auto simp: getConfig_def split: sum.splits)
  have 1: "k \<notin> {''organization'', ''authorizationParams'', ''session'', ''routes''}
        \<and> params k = Some v \<longrightarrow>
      get_path (baseConfigParams toNumber env params) [k] = v"
    by (simp add: baseConfigParams_def Let_def map_add_def get_prop_def)
  have 2: "params ''authorizationParams'' = Some (JObj a) \<and> a k = Some v \<longrightarrow>
      get_path (baseConfigParams toNumber env params) [''authorizationParams'', k] = v"
    by (simp add: baseConfigParams_def Let_def map_add_def get_prop_def)
  have 3: "params ''session'' = Some (JObj s) \<and> k \<noteq> ''cookie'' \<and> s k = Some v \<longrightarrow>
      get_path (baseConfigParams toNumber env params) [''session'', k] = v"
    by (simp add: baseConfigParams_def Let_def map_add_def get_prop_def)
  have 4: "params ''session'' = Some (JObj s) \<and> s ''cookie'' = Some (JObj c) \<and> c k = Some v \<longrightarrow>
      get_path (baseConfigParams toNumber env params) [''session'', ''cookie'', k] = v"
    by (simp add: baseConfigParams_def Let_def map_add_def get_prop_def)
  have 5: "params ''routes'' = Some (JObj r) \<and> k \<in> {''callback'', ''postLogoutRedirect''}
        \<and> r k = Some v \<and> truthy v \<longrightarrow>
      get_path (baseConfigParams toNumber env params) [''routes'', k] = v"
    by (auto simp add: baseConfigParams_def Let_def map_add_def get_prop_def js_or_def)
  have 6: "params ''routes'' = Some (JObj r) \<and> r ''login'' = Some v \<and> truthy v \<longrightarrow>
      get_path (nextConfig env params bc) [''routes'', ''login''] = v"
    by (simp add: nextConfig_def Let_def map_add_def get_prop_def js_or_def)
  have 7: "params ''organization'' = Some v \<and> truthy v \<longrightarrow>
      get_path (nextConfig env params bc) [''organization''] = v"
    by (simp add: nextConfig_def Let_def map_add_def get_prop_def js_or_def)
  from 0 1 2 3 4 5 6 7 show ?thesis by blast
qed


theorem getConfig_explicit_overrides_witness:
  "getConfig (\<lambda>s. NaN) Inr demo_env demo_params
     = (Inr (baseConfigParams (\<lambda>s. NaN) demo_env demo_params,
             nextConfig demo_env demo_params (baseConfigParams (\<lambda>s. NaN) demo_env demo_params))
        :: unit + obj \<times> obj)
   \<and> get_path (baseConfigParams (\<lambda>s. NaN) demo_env demo_params) [''clientID'']
       = JStr ''my-client''
   \<and> get_path (baseConfigParams (\<lambda>s. NaN) demo_env demo_params) [''authorizationParams'', ''scope'']
       = JStr ''openid profile''
   \<and> get_path (baseConfigParams (\<lambda>s. NaN) demo_env demo_params) [''session'', ''name'']
       = JStr ''mySession''
   \<and> get_path (baseConfigParams (\<lambda>s. NaN) demo_env demo_params) [''session'', ''cookie'', ''domain'']
       = JStr ''my.example.org''
   \<and> get_path (baseConfigParams (\<lambda>s. NaN) demo_env demo_params) [''routes'', ''callback'']
       = JStr ''/my/callback''
   \<and> get_path (nextConfig demo_env demo_params Map.empty) [''routes'', ''login'']
       = JStr ''/my/login''
   \<and> get_path (nextConfig demo_env demo_params Map.empty) [''organization'']
       = JStr ''org_mine''"
proof -
  let ?T = "\<lambda>s::string. NaN"
  let ?G = "Inr :: obj \<Rightarrow> unit + obj"
  let ?b = "baseConfigParams ?T demo_env demo_params"
  have g: "getConfig ?T ?G demo_env demo_params = Inr (?b, nextConfig demo_env demo_params ?b)"
    by (simp add: getConfig_def)
  have 1: "get_path ?b [''clientID''] = JStr ''my-client''"
  proof -
    have h: "''clientID'' \<notin> {''organization'', ''authorizationParams'', ''session'', ''routes''}
        \<and> demo_params ''clientID'' = Some (JStr ''my-client'')"
      by (simp add: demo_params_def)
    note t = getConfig_explicit_overrides
      [where toNumber = ?T and getBaseConfig = ?G and env = demo_env and params = demo_params
         and bc = "Map.empty" and nc = "nextConfig demo_env demo_params (Map.empty)"
         and k = "''clientID''" and v = "JStr ''my-client''"
         and a = "[''scope'' \<mapsto> JStr ''openid profile'']"
         and s = "[''name'' \<mapsto> JStr ''mySession'', ''cookie'' \<mapsto> JObj [''domain'' \<mapsto> JStr ''my.example.org'']]"
         and c = "[''domain'' \<mapsto> JStr ''my.example.org'']"
         and r = "[''callback'' \<mapsto> JStr ''/my/callback'', ''login'' \<mapsto> JStr ''/my/login'']"]
    show ?thesis
      by (rule t [THEN conjunct2, THEN conjunct1, THEN mp, OF h])
  qed
  have 2: "get_path ?b [''authorizationParams'', ''scope''] = JStr ''openid profile''"
  proof -
    have h: "demo_params ''authorizationParams'' = Some (JObj [''scope'' \<mapsto> JStr ''openid profile''])
        \<and> [''scope'' \<mapsto> JStr ''openid profile''] ''scope'' = Some (JStr ''openid profile'')"
      by (simp add: demo_params_def)
    note t = getConfig_explicit_overrides
      [where toNumber = ?T and getBaseConfig = ?G and env = demo_env and params = demo_params
         and bc = "Map.empty" and nc = "nextConfig demo_env demo_params (Map.empty)"
         and k = "''scope''" and v = "JStr ''openid profile''"
         and a = "[''scope'' \<mapsto> JStr ''openid profile'']"
         and s = "[''name'' \<mapsto> JStr ''mySession'', ''cookie'' \<mapsto> JObj [''domain'' \<mapsto> JStr ''my.example.org'']]"
         and c = "[''domain'' \<mapsto> JStr ''my.example.org'']"
         and r = "[''callback'' \<mapsto> JStr ''/my/callback'', ''login'' \<mapsto> JStr ''/my/login'']"]
    show ?thesis
      by (rule t [THEN conjunct2, THEN conjunct2, THEN conjunct1, THEN mp, OF h])
  qed
  have 3: "get_path ?b [''session'', ''name''] = JStr ''mySession''"
  proof -
    have h: "demo_params ''session'' = Some (JObj [''name'' \<mapsto> JStr ''mySession'', ''cookie'' \<mapsto> JObj [''domain'' \<mapsto> JStr ''my.example.org'']])
        \<and> ''name'' \<noteq> ''cookie''
        \<and> [''name'' \<mapsto> JStr ''mySession'', ''cookie'' \<mapsto> JObj [''domain'' \<mapsto> JStr ''my.example.org'']] ''name'' = Some (JStr ''mySession'')"
      by (simp add: demo_params_def)
    note t = getConfig_explicit_overrides
      [where toNumber = ?T and getBaseConfig = ?G and env = demo_env and params = demo_params
         and bc = "Map.empty" and nc = "nextConfig demo_env demo_params (Map.empty)"
         and k = "''name''" and v = "JStr ''mySession''"
         and a = "[''scope'' \<mapsto> JStr ''openid profile'']"
         and s = "[''name'' \<mapsto> JStr ''mySession'', ''cookie'' \<mapsto> JObj [''domain'' \<mapsto> JStr ''my.example.org'']]"
         and c = "[''domain'' \<mapsto> JStr ''my.example.org'']"
         and r = "[''callback'' \<mapsto> JStr ''/my/callback'', ''login'' \<mapsto> JStr ''/my/login'']"]
    show ?thesis
      by (rule t [THEN conjunct2, THEN conjunct2, THEN conjunct2, THEN conjunct1, THEN mp, OF h])
  qed
  have 4: "get_path ?b [''session'', ''cookie'', ''domain''] = JStr ''my.example.org''"
  proof -
    have h: "demo_params ''session'' = Some (JObj [''name'' \<mapsto> JStr ''mySession'', ''cookie'' \<mapsto> JObj [''domain'' \<mapsto> JStr ''my.example.org'']])
        \<and> [''name'' \<mapsto> JStr ''mySession'', ''cookie'' \<mapsto> JObj [''domain'' \<mapsto> JStr ''my.example.org'']] ''cookie'' = Some (JObj [''domain'' \<mapsto> JStr ''my.example.org''])
        \<and> [''domain'' \<mapsto> JStr ''my.example.org''] ''domain'' = Some (JStr ''my.example.org'')"
      by (simp add: demo_params_def)
    note t = getConfig_explicit_overrides
      [where toNumber = ?T and getBaseConfig = ?G and env = demo_env and params = demo_params
         and bc = "Map.empty" and nc = "nextConfig demo_env demo_params (Map.empty)"
         and k = "''domain''" and v = "JStr ''my.example.org''"
         and a = "[''scope'' \<mapsto> JStr ''openid profile'']"
         and s = "[''name'' \<mapsto> JStr ''mySession'', ''cookie'' \<mapsto> JObj [''domain'' \<mapsto> JStr ''my.example.org'']]"
         and c = "[''domain'' \<mapsto> JStr ''my.example.org'']"
         and r = "[''callback'' \<mapsto> JStr ''/my/callback'', ''login'' \<mapsto> JStr ''/my/login'']"]
    show ?thesis
      by (rule t [THEN conjunct2, THEN conjunct2, THEN conjunct2, THEN conjunct2, THEN conjunct1, THEN mp, OF h])
  qed
  have 5: "get_path ?b [''routes'', ''callback''] = JStr ''/my/callback''"
  proof -
    have h: "demo_params ''routes'' = Some (JObj [''callback'' \<mapsto> JStr ''/my/callback'', ''login'' \<mapsto> JStr ''/my/login''])
        \<and> ''callback'' \<in> {''callback'', ''postLogoutRedirect''}
        \<and> [''callback'' \<mapsto> JStr ''/my/callback'', ''login'' \<mapsto> JStr ''/my/login''] ''callback'' = Some (JStr ''/my/callback'')
        \<and> truthy (JStr ''/my/callback'')"
      by (simp add: demo_params_def)
    note t = getConfig_explicit_overrides
      [where toNumber = ?T and getBaseConfig = ?G and env = demo_env and params = demo_params
         and bc = "Map.empty" and nc = "nextConfig demo_env demo_params (Map.empty)"
         and k = "''callback''" and v = "JStr ''/my/callback''"
         and a = "[''scope'' \<mapsto> JStr ''openid profile'']"
         and s = "[''name'' \<mapsto> JStr ''mySession'', ''cookie'' \<mapsto> JObj [''domain'' \<mapsto> JStr ''my.example.org'']]"
         and c = "[''domain'' \<mapsto> JStr ''my.example.org'']"
         and r = "[''callback'' \<mapsto> JStr ''/my/callback'', ''login'' \<mapsto> JStr ''/my/login'']"]
    show ?thesis
      by (rule t [THEN conjunct2, THEN conjunct2, THEN conjunct2, THEN conjunct2, THEN conjunct2, THEN conjunct1, THEN mp, OF h])
  qed
  have 6: "get_path (nextConfig demo_env demo_params Map.empty) [''routes'', ''login''] = JStr ''/my/login''"
  proof -
    have h: "demo_params ''routes'' = Some (JObj [''callback'' \<mapsto> JStr ''/my/callback'', ''login'' \<mapsto> JStr ''/my/login''])
        \<and> [''callback'' \<mapsto> JStr ''/my/callback'', ''login'' \<mapsto> JStr ''/my/login''] ''login'' = Some (JStr ''/my/login'')
        \<and> truthy (JStr ''/my/login'')"
      by (simp add: demo_params_def)
    note t = getConfig_explicit_overrides
      [where toNumber = ?T and getBaseConfig = ?G and env = demo_env and params = demo_params
         and bc = "Map.empty" and nc = "nextConfig demo_env demo_params (Map.empty)"
         and k = "''login''" and v = "JStr ''/my/login''"
         and a = "[''scope'' \<mapsto> JStr ''openid profile'']"
         and s = "[''name'' \<mapsto> JStr ''mySession'', ''cookie'' \<mapsto> JObj [''domain'' \<mapsto> JStr ''my.example.org'']]"
         and c = "[''domain'' \<mapsto> JStr ''my.example.org'']"
         and r = "[''callback'' \<mapsto> JStr ''/my/callback'', ''login'' \<mapsto> JStr ''/my/login'']"]
    show ?thesis
      by (rule t [THEN conjunct2, THEN conjunct2, THEN conjunct2, THEN conjunct2, THEN conjunct2, THEN conjunct2, THEN conjunct1, THEN mp, OF h])
  qed
  have 7: "get_path (nextConfig demo_env demo_params Map.empty) [''organization''] = JStr ''org_mine''"
  proof -
    have h: "demo_params ''organization'' = Some (JStr ''org_mine'')
        \<and> truthy (JStr ''org_mine'')"
      by (simp add: demo_params_def)
    note t = getConfig_explicit_overrides
      [where toNumber = ?T and getBaseConfig = ?G and env = demo_env and params = demo_params
         and bc = "Map.empty" and nc = "nextConfig demo_env demo_params (Map.empty)"
         and k = "''organization''" and v = "JStr ''org_mine''"
         and a = "[''scope'' \<mapsto> JStr ''openid profile'']"
         and s = "[''name'' \<mapsto> JStr ''mySession'', ''cookie'' \<mapsto> JObj [''domain'' \<mapsto> JStr ''my.example.org'']]"
         and c = "[''domain'' \<mapsto> JStr ''my.example.org'']"
         and r = "[''callback'' \<mapsto> JStr ''/my/callback'', ''login'' \<mapsto> JStr ''/my/login'']"]
    show ?thesis
      by (rule t [THEN conjunct2, THEN conjunct2, THEN conjunct2, THEN conjunct2, THEN conjunct2, THEN conjunct2, THEN conjunct2, THEN mp, OF h])
  qed
  show ?thesis
    by (intro conjI) (rule g 1 2 3 4 5 6 7)+
qed

text \<open>
  Claim C6 as the specification words it, for every option and every value passed, fails
  for the routes: \<^verbatim>\<open>routes.callback\<close> passed as the empty string does not stand in the
  result, the value of \<^verbatim>\<open>ZAUTH_CALLBACK\<close> does.
\<close>

theorem getConfig_empty_callback_counterexample:
  "get_path (baseConfigParams no_numerals [''ZAUTH_CALLBACK'' \<mapsto> ''/env/callback'']
               [''routes'' \<mapsto> JObj [''callback'' \<mapsto> JStr []]]) [''routes'', ''callback'']
     = JStr ''/env/callback''
   \<and> JStr ''/env/callback'' \<noteq> JStr []"
  by (simp add: baseConfigParams_def Let_def map_add_def get_prop_def js_or_def)

section \<open>The two logout flags\<close>

text \<open>
  Claim C9. Where the parameters do not set them, \<^verbatim>\<open>idpLogout\<close> and \<^verbatim>\<open>zAuthLogout\<close> are
  both \<^verbatim>\<open>bool(ZAUTH_IDP_LOGOUT, true)\<close>, which is \<^verbatim>\<open>true\<close> when the variable is unset; and
  \<^verbatim>\<open>zAuthLogout\<close> depends on the environment through \<^verbatim>\<open>ZAUTH_IDP_LOGOUT\<close> alone: two
  environments that agree on this variable give the same value, whatever their other
  variables are.
\<close>

theorem getConfig_logout_flags:
  "(params ''idpLogout'' = None \<longrightarrow>
      baseConfigParams toNumber env params ''idpLogout''
        = Some (bool (env_val (env ''ZAUTH_IDP_LOGOUT'')) (JBool True)))
   \<and> (params ''zAuthLogout'' = None \<longrightarrow>
      baseConfigParams toNumber env params ''zAuthLogout''
        = Some (bool (env_val (env ''ZAUTH_IDP_LOGOUT'')) (JBool True)))
   \<and> (env ''ZAUTH_IDP_LOGOUT'' = None \<longrightarrow>
      bool (env_val (env ''ZAUTH_IDP_LOGOUT'')) (JBool True) = JBool True)
   \<and> (env ''ZAUTH_IDP_LOGOUT'' = env' ''ZAUTH_IDP_LOGOUT'' \<longrightarrow>
      baseConfigParams toNumber env params ''zAuthLogout''
        = baseConfigParams toNumber env' params ''zAuthLogout'')"
proof -
  have 1: "params ''idpLogout'' = None \<longrightarrow>
      baseConfigParams toNumber env params ''idpLogout''
        = Some (bool (env_val (env ''ZAUTH_IDP_LOGOUT'')) (JBool True))"
    by (simp add: baseConfigParams_def Let_def map_add_def)
  have 2: "params ''zAuthLogout'' = None \<longrightarrow>
      baseConfigParams toNumber env params ''zAuthLogout''
        = Some (bool (env_val (env ''ZAUTH_IDP_LOGOUT'')) (JBool True))"
    by (simp add: baseConfigParams_def Let_def map_add_def)
  have 3: "env ''ZAUTH_IDP_LOGOUT'' = None \<longrightarrow>
      bool (env_val (env ''ZAUTH_IDP_LOGOUT'')) (JBool True) = JBool True"
    by (simp add: bool_def)
  have z: "\<And>e. baseConfigParams toNumber e params ''zAuthLogout''
        = (case params ''zAuthLogout'' of
             None \<Rightarrow> Some (bool (env_val (e ''ZAUTH_IDP_LOGOUT'')) (JBool True))
           | Some v \<Rightarrow> Some v)"
    by (cases "params ''zAuthLogout''")
       (simp_all add: baseConfigParams_def Let_def map_add_def)
  have 4: "env ''ZAUTH_IDP_LOGOUT'' = env' ''ZAUTH_IDP_LOGOUT'' \<longrightarrow>
      baseConfigParams toNumber env params ''zAuthLogout''
        = baseConfigParams toNumber env' params ''zAuthLogout''"
    by (simp add: z split: option.split)
  from 1 2 3 4 show ?thesis by blast
qed

theorem getConfig_logout_flags_witness:
  "baseConfigParams (\<lambda>s. NaN) Map.empty Map.empty ''idpLogout'' = Some (JBool True)
   \<and> baseConfigParams (\<lambda>s. NaN) Map.empty Map.empty ''zAuthLogout'' = Some (JBool True)
   \<and> baseConfigParams (\<lambda>s. NaN) [''ZAUTH_IDP_LOGOUT'' \<mapsto> ''false''] Map.empty ''idpLogout''
       = Some (JBool False)
   \<and> baseConfigParams (\<lambda>s. NaN) [''ZAUTH_IDP_LOGOUT'' \<mapsto> ''false''] Map.empty ''zAuthLogout''
       = Some (JBool False)
   \<and> baseConfigParams (\<lambda>s. NaN)
         [''ZAUTH_IDP_LOGOUT'' \<mapsto> ''false'', ''ZAUTH_ZAUTH_LOGOUT'' \<mapsto> ''true'']
         Map.empty ''zAuthLogout''
       = Some (JBool False)"
proof -
  let ?T = "\<lambda>s::string. NaN"
  let ?n = "Map.empty :: env"
  let ?p = "Map.empty :: obj"
  let ?e = "[''ZAUTH_IDP_LOGOUT'' \<mapsto> ''false'']"
  let ?e' = "[''ZAUTH_IDP_LOGOUT'' \<mapsto> ''false'', ''ZAUTH_ZAUTH_LOGOUT'' \<mapsto> ''true'']"
  have f: "bool (env_val (?e ''ZAUTH_IDP_LOGOUT'')) (JBool True) = JBool False"
    by (simp add: bool_def lower_trim_false includes_str_def FALSEY_def)
  have u: "?p ''idpLogout'' = None" "?p ''zAuthLogout'' = None" "?n ''ZAUTH_IDP_LOGOUT'' = None"
    by simp_all
  have ee: "?e ''ZAUTH_IDP_LOGOUT'' = ?e' ''ZAUTH_IDP_LOGOUT''"
    by simp
  note A = getConfig_logout_flags [where params = ?p and toNumber = ?T and env = ?n and env' = ?n]
  note B = getConfig_logout_flags [where params = ?p and toNumber = ?T and env = ?e and env' = ?e']
  from A u have 1: "baseConfigParams ?T ?n ?p ''idpLogout'' = Some (JBool True)"
    by metis
  from A u have 2: "baseConfigParams ?T ?n ?p ''zAuthLogout'' = Some (JBool True)"
    by metis
  from B u f have 3: "baseConfigParams ?T ?e ?p ''idpLogout'' = Some (JBool False)"
    by metis
  from B u f have 4: "baseConfigParams ?T ?e ?p ''zAuthLogout'' = Some (JBool False)"
    by metis
  from B ee have "baseConfigParams ?T ?e ?p ''zAuthLogout''
          = baseConfigParams ?T ?e' ?p ''zAuthLogout''"
    by blast
  with 4 have 5: "baseConfigParams ?T ?e' ?p ''zAuthLogout'' = Some (JBool False)"
    by simp
  from 1 2 3 4 5 show ?thesis by blast
qed

section \<open>The base URL\<close>

text \<open>
  Claim C10, as the code has it. When \<^verbatim>\<open>ZAUTH_BASE_URL\<close> is set to a string that is not
  empty and starts with neither "http://" nor "https://", and no \<^verbatim>\<open>baseURL\<close> is passed,
  the \<^verbatim>\<open>baseURL\<close> handed on is that string with "https://" put before it; a \<^verbatim>\<open>baseURL\<close>
  that is passed is handed on as it is.
\<close>

theorem getConfig_baseURL:
  "(params ''baseURL'' = None \<and> env ''ZAUTH_BASE_URL'' = Some s \<and> s \<noteq> []
      \<and> \<not> prefix ''http://'' s \<and> \<not> prefix ''https://'' s \<longrightarrow>
      baseConfigParams toNumber env params ''baseURL'' = Some (JStr (''https://'' @ s)))
   \<and> (params ''baseURL'' = Some v \<longrightarrow>
      baseConfigParams toNumber env params ''baseURL'' = Some v)"
  by (simp add: baseConfigParams_def Let_def map_add_def js_and_def test_http_scheme_prefix)


theorem getConfig_baseURL_witness:
  "baseConfigParams (\<lambda>s. NaN) [''ZAUTH_BASE_URL'' \<mapsto> ''app.example.org''] Map.empty ''baseURL''
     = Some (JStr ''https://app.example.org'')
   \<and> baseConfigParams (\<lambda>s. NaN) [''ZAUTH_BASE_URL'' \<mapsto> ''app.example.org'']
         [''baseURL'' \<mapsto> JStr ''my.example.org''] ''baseURL''
     = Some (JStr ''my.example.org'')"
proof -
  let ?T = "\<lambda>s::string. NaN"
  let ?e = "[''ZAUTH_BASE_URL'' \<mapsto> ''app.example.org'']"
  let ?p = "[''baseURL'' \<mapsto> JStr ''my.example.org'']"
  have h1: "(Map.empty :: obj) ''baseURL'' = None \<and> ?e ''ZAUTH_BASE_URL'' = Some ''app.example.org''
      \<and> ''app.example.org'' \<noteq> []
      \<and> \<not> prefix ''http://'' ''app.example.org'' \<and> \<not> prefix ''https://'' ''app.example.org''"
    by simp
  have h2: "?p ''baseURL'' = Some (JStr ''my.example.org'')"
    by simp
  from getConfig_baseURL
      [where params = "Map.empty" and env = ?e and s = "''app.example.org''" and toNumber = ?T
         and v = JUndefined] h1
  have 1: "baseConfigParams ?T ?e Map.empty ''baseURL'' = Some (JStr (''https://'' @ ''app.example.org''))"
    by blast
  from getConfig_baseURL
      [where params = ?p and env = ?e and s = "[]" and toNumber = ?T
         and v = "JStr ''my.example.org''"] h2
  have 2: "baseConfigParams ?T ?e ?p ''baseURL'' = Some (JStr ''my.example.org'')"
    by blast
  from 1 2 show ?thesis by simp
qed

text \<open>
  Claim C10 as the specification words it fails where the variable is set to the empty
  string, which starts with neither scheme: \<^verbatim>\<open>ZAUTH_BASE_URL && ...\<close> is then the empty
  string, the conditional takes its second branch, and the \<^verbatim>\<open>baseURL\<close> handed on is the
  empty string, not "https://".
\<close>

theorem getConfig_empty_baseURL_counterexample:
  "baseConfigParams no_numerals [''ZAUTH_BASE_URL'' \<mapsto> []] Map.empty ''baseURL''
     = Some (JStr [])
   \<and> \<not> prefix ''http://'' [] \<and> \<not> prefix ''https://'' []
   \<and> JStr [] \<noteq> JStr (''https://'' @ [])"
  by (simp add: baseConfigParams_def Let_def map_add_def js_and_def)

section \<open>One session cache for all requests\<close>

lemma reachable_withPageAuthRequired_export:
  "reachable_caches (Some i) (withPageAuthRequired_export env) = session_caches (getSession i)"
  by (simp add: reachable_caches_def withPageAuthRequired_export_def)

lemma getInstance_Some: "instance_var st = Some i \<Longrightarrow> getInstance toNumber getBaseConfig env st = Inr (i, st)"
  by (simp add: getInstance_def)

lemma serve_instance:
  "instance_var st = Some i \<Longrightarrow>
     serve toNumber getBaseConfig env st calls
       = Inr (map (\<lambda>(e, q). (q, case e of
                                  Wrapper w \<Rightarrow> session_caches (target i w)
                                | WithPageAuthRequired \<Rightarrow> session_caches (getSession i))) calls,
              st)"
proof (induction calls)
  case Nil
  then show ?case by simp
next
  case (Cons a calls)
  obtain e q where a: "a = (e, q)" by (cases a)
  show ?case
    using Cons
    by (cases e) (simp_all add: a getInstance_Some reachable_withPageAuthRequired_export)
qed

lemma initZeusIdentity_Inr:
  assumes "initZeusIdentity toNumber getBaseConfig env params h = Inr (i, h')"
  shows "\<exists>bc. h' = h @ [TransientStore bc, CookieStore bc, SessionCache bc (length h + 1)]"
    and "\<And>w. session_caches (target i w) = (if w = HandleLogin then {} else {length h + 2})"
    and "session_caches (withPageAuthRequired i) = {length h + 2}"
proof -
  from assms obtain bc nc where
    c: "getConfig toNumber getBaseConfig env params = Inr (bc, nc)"
    by (auto simp: initZeusIdentity_def split: sum.splits)
  from assms c have h': "h' = h @ [TransientStore bc, CookieStore bc, SessionCache bc (length h + 1)]"
    by (simp add: initZeusIdentity_def new_def Let_def)
  from assms c have i: "i = \<lparr>getSession = SessionFactory (length h + 2),
      getAccessToken = AccessTokenFactory nc (ClientFactory bc) (length h + 2),
      withApiAuthRequired = WithApiAuthRequiredFactory (length h + 2),
      withApiAuthOptional = WithApiAuthOptionalFactory (length h + 2),
      withPageAuthRequired =
        WithPageAuthRequiredFactory (get_path nc [''routes'', ''login'']) (SessionFactory (length h + 2)),
      handleLogin = LoginHandler (BaseLoginHandler bc (ClientFactory bc) (length h)) nc,
      handleLogout = LogoutHandler (BaseLogoutHandler bc (ClientFactory bc) (length h + 2)),
      handleCallback =
        CallbackHandler (BaseCallbackHandler bc (ClientFactory bc) (length h + 2) (length h)) nc,
      handleProfile =
        ProfileHandler (ClientFactory bc)
          (AccessTokenFactory nc (ClientFactory bc) (length h + 2)) (length h + 2),
      handleAuth = HandlerFactory
        (LoginHandler (BaseLoginHandler bc (ClientFactory bc) (length h)) nc)
        (LogoutHandler (BaseLogoutHandler bc (ClientFactory bc) (length h + 2)))
        (CallbackHandler (BaseCallbackHandler bc (ClientFactory bc) (length h + 2) (length h)) nc)
        (ProfileHandler (ClientFactory bc)
          (AccessTokenFactory nc (ClientFactory bc) (length h + 2)) (length h + 2))\<rparr>"
    by (simp add: initZeusIdentity_def new_def Let_def)
  from h' show "\<exists>bc. h' = h @ [TransientStore bc, CookieStore bc, SessionCache bc (length h + 1)]"
    by blast
  show "\<And>w. session_caches (target i w) = (if w = HandleLogin then {} else {length h + 2})"
  proof -
    fix w show "session_caches (target i w) = (if w = HandleLogin then {} else {length h + 2})"
      by (cases w) (simp_all add: i)
  qed
  show "session_caches (withPageAuthRequired i) = {length h + 2}"
    by (simp add: i)
qed

text \<open>
  Claim C3, as the code has it. \<open>getInstance\<close> on a module without an instance runs
  \<open>initZeusIdentity\<close>, which makes one \<^verbatim>\<open>TransientStore\<close>, one \<^verbatim>\<open>CookieStore\<close> and one
  \<^verbatim>\<open>SessionCache\<close>, and stores the instance. Of the functions of the instance,
  \<^verbatim>\<open>handleLogin\<close> holds no \<^verbatim>\<open>SessionCache\<close> and every other one, \<^verbatim>\<open>withPageAuthRequired\<close>
  included, holds exactly that one. From then on \<open>getInstance\<close> returns the same instance
  and makes no object, whatever the environment; every call of a named export, for
  whatever request, is served through that one \<^verbatim>\<open>SessionCache\<close> object, the wrapper of
  \<^verbatim>\<open>handleLogin\<close> apart, which holds none; the module-level \<^verbatim>\<open>withPageAuthRequired\<close> reaches
  it through the named \<^verbatim>\<open>getSession\<close> it holds. Another call of \<open>initZeusIdentity\<close> makes
  another \<^verbatim>\<open>SessionCache\<close>, a different object.
\<close>

theorem getInstance_shares_sessionCache:
  assumes "instance_var st = None"
    and "getInstance toNumber getBaseConfig env st = Inr (i, st')"
  shows "instance_var st' = Some i
    \<and> (\<exists>bc. heap st' = heap st @ [TransientStore bc, CookieStore bc,
                                    SessionCache bc (length (heap st) + 1)])
    \<and> (\<forall>w. session_caches (target i w)
              = (if w = HandleLogin then {} else {length (heap st) + 2}))
    \<and> session_caches (withPageAuthRequired i) = {length (heap st) + 2}
    \<and> (\<forall>env'. reachable_caches (instance_var st') (withPageAuthRequired_export env')
                 = {length (heap st) + 2})
    \<and> (\<forall>env'. getInstance toNumber getBaseConfig env' st' = Inr (i, st'))
    \<and> (\<forall>env' calls. serve toNumber getBaseConfig env' st' (calls :: (export \<times> 'q) list)
          = Inr (map (\<lambda>(e, q). (q, if e = Wrapper HandleLogin then {}
                                      else {length (heap st) + 2})) calls, st'))
    \<and> (\<forall>env' params i2 h2.
          initZeusIdentity toNumber getBaseConfig env' params (heap st') = Inr (i2, h2) \<longrightarrow>
          session_caches (getSession i2) = {length (heap st) + 5})"
proof -
  from assms obtain h' where
    init: "initZeusIdentity toNumber getBaseConfig env Map.empty (heap st) = Inr (i, h')"
    and st': "st' = st\<lparr>instance_var := Some i, heap := h'\<rparr>"
    by (auto simp: getInstance_def split: sum.splits)
  let ?c = "length (heap st) + 2"
  have 1: "instance_var st' = Some i" by (simp add: st')
  have 2: "\<exists>bc. heap st' = heap st @ [TransientStore bc, CookieStore bc,
                                    SessionCache bc (length (heap st) + 1)]"
    using initZeusIdentity_Inr(1) [OF init] by (simp add: st')
  have t: "\<And>w. session_caches (target i w) = (if w = HandleLogin then {} else {?c})"
    by (rule initZeusIdentity_Inr(2) [OF init])
  have 3: "\<forall>w. session_caches (target i w) = (if w = HandleLogin then {} else {?c})"
    using t by blast
  have 4: "session_caches (withPageAuthRequired i) = {?c}"
    by (rule initZeusIdentity_Inr(3) [OF init])
  have gs: "session_caches (getSession i) = {?c}"
    using t [of GetSession] by simp
  have 5: "\<forall>env'. reachable_caches (instance_var st') (withPageAuthRequired_export env') = {?c}"
    by (simp add: 1 reachable_withPageAuthRequired_export gs)
  have 6: "\<forall>env'. getInstance toNumber getBaseConfig env' st' = Inr (i, st')"
    by (simp add: getInstance_Some [OF 1])
  have m: "\<And>e. (case e of Wrapper w \<Rightarrow> session_caches (target i w)
                    | WithPageAuthRequired \<Rightarrow> session_caches (getSession i))
                = (if e = Wrapper HandleLogin then {} else {?c})"
  proof -
    fix e show "(case e of Wrapper w \<Rightarrow> session_caches (target i w)
                    | WithPageAuthRequired \<Rightarrow> session_caches (getSession i))
                = (if e = Wrapper HandleLogin then {} else {?c})"
      by (cases e) (simp_all add: t gs)
  qed
  have 7: "\<forall>env' calls. serve toNumber getBaseConfig env' st' (calls :: (export \<times> 'q) list)
          = Inr (map (\<lambda>(e, q). (q, if e = Wrapper HandleLogin then {} else {?c})) calls, st')"
    by (simp add: serve_instance [OF 1] m)
  have 8: "\<forall>env' params i2 h2.
          initZeusIdentity toNumber getBaseConfig env' params (heap st') = Inr (i2, h2) \<longrightarrow>
          session_caches (getSession i2) = {length (heap st) + 5}"
  proof (intro allI impI)
    fix env' params i2 h2
    assume a: "initZeusIdentity toNumber getBaseConfig env' params (heap st') = Inr (i2, h2)"
    from 2 have l: "length (heap st') = length (heap st) + 3" by auto
    from initZeusIdentity_Inr(2) [OF a, of GetSession] l
    show "session_caches (getSession i2) = {length (heap st) + 5}" by simp
  qed
  from 1 2 3 4 5 6 7 8 show ?thesis by blast
qed


theorem getInstance_shares_sessionCache_witness:
  "\<exists>i st'. getInstance no_numerals (Inr :: obj \<Rightarrow> unit + obj) Map.empty
               \<lparr>instance_var = None, heap = []\<rparr> = Inr (i, st')
     \<and> instance_var st' = Some i
     \<and> length (heap st') = 3
     \<and> session_caches (target i HandleLogout) = {2}
     \<and> session_caches (target i HandleAuth) = {2}
     \<and> session_caches (target i HandleLogin) = {}
     \<and> reachable_caches (instance_var st')
          (withPageAuthRequired_export [''NEXT_PUBLIC_ZAUTH_LOGIN'' \<mapsto> ''/login'']) = {2}
     \<and> serve no_numerals (Inr :: obj \<Rightarrow> unit + obj) [''ZAUTH_SECRET'' \<mapsto> ''other''] st'
          [(Wrapper HandleCallback, 1::nat), (WithPageAuthRequired, 2), (Wrapper HandleLogin, 3)]
         = Inr ([(1, {2}), (2, {2}), (3, {})], st')
     \<and> (\<exists>i2 h2. initZeusIdentity no_numerals (Inr :: obj \<Rightarrow> unit + obj) Map.empty Map.empty
                    (heap st') = Inr (i2, h2)
           \<and> session_caches (getSession i2) = {5})"
proof -
  let ?st = "\<lparr>instance_var = None, heap = []\<rparr>"
  let ?G = "Inr :: obj \<Rightarrow> unit + obj"
  obtain i st' where g: "getInstance no_numerals ?G Map.empty ?st = Inr (i, st')"
    by (simp add: getInstance_def initZeusIdentity_def getConfig_def new_def Let_def)
  obtain i2 h2 where
    g2: "initZeusIdentity no_numerals ?G Map.empty Map.empty (heap st') = Inr (i2, h2)"
    by (simp add: initZeusIdentity_def getConfig_def new_def Let_def)
  have n: "instance_var ?st = None" by simp
  note t = getInstance_shares_sessionCache [OF n g, where 'q = nat]
  from t have 1: "instance_var st' = Some i" by blast
  from t have 2: "length (heap st') = 3" by auto
  from t have a: "\<forall>w. session_caches (target i w)
                       = (if w = HandleLogin then {} else {length (heap ?st) + 2})"
    by blast
  have 3: "session_caches (target i HandleLogout) = {2}"
    using spec [OF a, of HandleLogout] by (simp add: numeral_2_eq_2)
  have 4: "session_caches (target i HandleAuth) = {2}"
    using spec [OF a, of HandleAuth] by (simp add: numeral_2_eq_2)
  have 5: "session_caches (target i HandleLogin) = {}"
    using spec [OF a, of HandleLogin] by simp
  from t have b: "\<forall>env'. reachable_caches (instance_var st') (withPageAuthRequired_export env')
                 = {length (heap ?st) + 2}"
    by blast
  have 6: "reachable_caches (instance_var st')
          (withPageAuthRequired_export [''NEXT_PUBLIC_ZAUTH_LOGIN'' \<mapsto> ''/login'']) = {2}"
    using spec [OF b, of "[''NEXT_PUBLIC_ZAUTH_LOGIN'' \<mapsto> ''/login'']"]
    by (simp add: numeral_2_eq_2)
  from t have c: "\<forall>env' calls. serve no_numerals ?G env' st' (calls :: (export \<times> nat) list)
          = Inr (map (\<lambda>(e, q). (q, if e = Wrapper HandleLogin then {}
                                      else {length (heap ?st) + 2})) calls, st')"
    by blast
  have 7: "serve no_numerals ?G [''ZAUTH_SECRET'' \<mapsto> ''other''] st'
          [(Wrapper HandleCallback, 1::nat), (WithPageAuthRequired, 2), (Wrapper HandleLogin, 3)]
         = Inr ([(1, {2}), (2, {2}), (3, {})], st')"
    using c [rule_format, of "[''ZAUTH_SECRET'' \<mapsto> ''other'']"
               "[(Wrapper HandleCallback, 1::nat), (WithPageAuthRequired, 2), (Wrapper HandleLogin, 3)]"]
    by (simp add: numeral_2_eq_2)
  from t have d: "\<forall>env' params i2 h2.
          initZeusIdentity no_numerals ?G env' params (heap st') = Inr (i2, h2) \<longrightarrow>
          session_caches (getSession i2) = {length (heap ?st) + 5}"
    by blast
  have 8: "session_caches (getSession i2) = {5}"
    using d [rule_format, OF g2] by simp
  from g 1 2 3 4 5 6 7 g2 8 show ?thesis by blast
qed

text \<open>
  Claim C3 as the specification words it, that each request gets a fresh cache and that
  no process-wide \<^verbatim>\<open>SessionCache\<close> instance is shared by the operations of two different
  requests, fails on a fresh process already: a \<^verbatim>\<open>getSession\<close> for request 1, a
  \<^verbatim>\<open>handleCallback\<close> for request 2, a \<^verbatim>\<open>getAccessToken\<close> for request 3 and a
  \<^verbatim>\<open>handleLogout\<close> for request 4 are all served by functions that hold object 2 of the
  heap, the one \<^verbatim>\<open>SessionCache\<close> of the process.
\<close>

theorem serve_four_requests_counterexample:
  "map_sum id fst
     (serve no_numerals Inr Map.empty \<lparr>instance_var = None, heap = []\<rparr>
        [(Wrapper GetSession, 1::nat), (Wrapper HandleCallback, 2),
         (Wrapper GetAccessToken, 3), (Wrapper HandleLogout, 4)])
     = (Inr [(1, {2}), (2, {2}), (3, {2}), (4, {2})] :: unit + (nat \<times> ref set) list)
   \<and> {2::ref} \<inter> {2} \<noteq> {}"
  by (simp add: getInstance_def initZeusIdentity_def getConfig_def new_def Let_def)

section \<open>The callback fails closed on a state mismatch\<close>

text \<open>
  Claim C1, against the callback of the specification. For every callback request whose
  \<^verbatim>\<open>state\<close> parameter is not the value stored in the transient store at login (a missing
  parameter included), the callback returns the error \<^verbatim>\<open>CsrfStateMismatch\<close>; the session
  record is what it was, no event has happened, so that \<^verbatim>\<open>SessionCache.establish\<close> was not
  called and no code was exchanged, and the stored state is consumed.
\<close>

theorem callback_state_mismatch_fails_closed:
  assumes "transient st ''state'' = Some expected"
    and "state_param req \<noteq> Some expected"
  shows "fst (FlowController_callback ext cfg afterCallback now req st) = Inl CsrfStateMismatch
    \<and> session (snd (FlowController_callback ext cfg afterCallback now req st)) = session st
    \<and> events (snd (FlowController_callback ext cfg afterCallback now req st)) = events st
    \<and> transient (snd (FlowController_callback ext cfg afterCallback now req st)) ''state'' = None"
  using assms
  by (simp add: FlowController_callback_def TransientStore_consume_def TransientStore_keys_def Let_def)


theorem callback_state_mismatch_fails_closed_witness:
  "fst (FlowController_callback test_oidc test_config None 1000
          \<lparr>state_param = Some ''forged'', code_param = ''code-1''\<rparr>
          \<lparr>transient = [''state'' \<mapsto> ''s3cr3t'', ''returnTo'' \<mapsto> ''/dashboard''],
           session = None, events = []\<rparr>) = Inl CsrfStateMismatch
   \<and> session (snd (FlowController_callback test_oidc test_config None 1000
          \<lparr>state_param = Some ''forged'', code_param = ''code-1''\<rparr>
          \<lparr>transient = [''state'' \<mapsto> ''s3cr3t'', ''returnTo'' \<mapsto> ''/dashboard''],
           session = None, events = []\<rparr>)) = None
   \<and> events (snd (FlowController_callback test_oidc test_config None 1000
          \<lparr>state_param = Some ''forged'', code_param = ''code-1''\<rparr>
          \<lparr>transient = [''state'' \<mapsto> ''s3cr3t'', ''returnTo'' \<mapsto> ''/dashboard''],
           session = None, events = []\<rparr>)) = []"
proof -
  let ?req = "\<lparr>state_param = Some ''forged'', code_param = ''code-1''\<rparr>"
  let ?st = "\<lparr>transient = [''state'' \<mapsto> ''s3cr3t'', ''returnTo'' \<mapsto> ''/dashboard''],
           session = None, events = []\<rparr>"
  have 1: "transient ?st ''state'' = Some ''s3cr3t''" by simp
  have 2: "state_param ?req \<noteq> Some ''s3cr3t''" by simp
  from callback_state_mismatch_fails_closed [OF 1 2, of test_oidc test_config None 1000]
  show ?thesis by simp
qed

section \<open>The logout URL of the Zeus issuer\<close>

text \<open>
  Claim C7, against the logout of the specification. With IdP-logout enabled and an issuer
  that the issuer-string matching accepts, logout clears the session and redirects to
  \<^verbatim>\<open><issuer>/v2/logout?returnTo=<postLogoutRedirect>&client_id=<clientID>\<close>, whatever the
  discovery metadata say about an end-session endpoint.
\<close>

theorem logout_zeus_url:
  assumes "idpLogout cfg" and "zeusIssuer (issuer cfg)"
  shows "fst (FlowController_logout ext zeusIssuer cfg meta st)
           = Redirect (issuer cfg @ ''/v2/logout?returnTo='' @ postLogoutRedirect cfg
                         @ ''&client_id='' @ clientID cfg)
    \<and> session (snd (FlowController_logout ext zeusIssuer cfg meta st)) = None"
  using assms
  by (simp add: FlowController_logout_def SessionCache_destroy_def Let_def)


text \<open>The witness is the test's case: the URL is the one the test expects.\<close>

theorem logout_zeus_url_witness:
  "fst (FlowController_logout test_oidc is_zeus test_config
          \<lparr>authorization_endpoint = ''https://zeus.zidentity.io/authorize'',
           token_endpoint = ''https://zeus.zidentity.io/oauth/token'',
           end_session_endpoint = None\<rparr>
          \<lparr>transient = Map.empty, session = Some (expired_session None), events = []\<rparr>)
     = Redirect ''https://zeus.zidentity.io/v2/logout?returnTo=foo&client_id=__test_client_id__''
   \<and> session (snd (FlowController_logout test_oidc is_zeus
          test_config
          \<lparr>authorization_endpoint = ''https://zeus.zidentity.io/authorize'',
           token_endpoint = ''https://zeus.zidentity.io/oauth/token'',
           end_session_endpoint = None\<rparr>
          \<lparr>transient = Map.empty, session = Some (expired_session None), events = []\<rparr>))
     = None"
proof -
  have 1: "idpLogout test_config" by (simp add: test_config_def)
  have 2: "is_zeus (issuer test_config)"
    by (simp add: test_config_def is_zeus_def)
  from logout_zeus_url [of test_config is_zeus, OF 1 2]
  show ?thesis by (simp add: test_config_def)
qed

section \<open>An expired access token\<close>

text \<open>
  Claim C4, against the access-token retrieval of the specification. For every valid
  session whose access token expired before now: if a refresh token is present, exactly
  one call goes over the network, the refresh with that token, and when the refresh
  succeeds the result is the newly issued access token, which is also the one the session
  now holds; if no refresh token is present the result is \<^verbatim>\<open>TokenExpired\<close> and the state,
  with its record of calls, is unchanged.
\<close>

theorem getAccessToken_expired:
  assumes "session st = Some r" and "now \<le> cookieExpiresAt r"
    and "expiresAt (payload r) = Some t" and "t < now" and "0 \<le> clockTolerance cfg"
  shows "(refreshToken (payload r) = Some rt \<longrightarrow>
            filter is_network_call
              (events (snd (FlowController_getAccessToken ext issuedScopes cfg now opts st)))
              = filter is_network_call (events st)
                @ [Refresh rt (remdups (issuedScopes (payload r) @ scopes opts))]
            \<and> (refresh ext rt (remdups (issuedScopes (payload r) @ scopes opts)) = Some tokens \<longrightarrow>
                fst (FlowController_getAccessToken ext issuedScopes cfg now opts st)
                  = Inr (access_token tokens)
                \<and> map_option (accessToken \<circ> payload)
                     (session (snd (FlowController_getAccessToken ext issuedScopes cfg now opts st)))
                  = Some (Some (access_token tokens))))
    \<and> (refreshToken (payload r) = None \<longrightarrow>
            FlowController_getAccessToken ext issuedScopes cfg now opts st = (Inl TokenExpired, st))"
proof -
  have g: "SessionCache_get now st = Some (payload r)"
    using assms(1,2) by (simp add: SessionCache_get_def)
  have e: "t \<le> now + clockTolerance cfg"
    using assms(4,5) by simp
  show ?thesis
    using g e assms(3)
    by (auto simp: FlowController_getAccessToken_def Let_def SessionCache_update_def
                   refreshed_def split: option.splits)
qed

theorem getAccessToken_expired_witness:
  "FlowController_getAccessToken test_oidc (\<lambda>p. []) test_config 1000 \<lparr>scopes = []\<rparr>
      \<lparr>transient = Map.empty, session = Some (expired_session None), events = []\<rparr>
     = (Inl TokenExpired,
        \<lparr>transient = Map.empty, session = Some (expired_session None), events = []\<rparr>)
   \<and> fst (FlowController_getAccessToken test_oidc (\<lambda>p. []) test_config 1000 \<lparr>scopes = []\<rparr>
      \<lparr>transient = Map.empty, session = Some (expired_session (Some ''refresh-1'')), events = []\<rparr>)
     = Inr ''access-2''
   \<and> filter is_network_call (events (snd
        (FlowController_getAccessToken test_oidc (\<lambda>p. []) test_config 1000 \<lparr>scopes = []\<rparr>
          \<lparr>transient = Map.empty, session = Some (expired_session (Some ''refresh-1'')),
           events = []\<rparr>)))
     = [Refresh ''refresh-1'' []]"
proof -
  let ?st = "\<lambda>rt. \<lparr>transient = Map.empty, session = Some (expired_session rt), events = []\<rparr>"
  let ?tokens = "\<lparr>access_token = ''access-2'', refresh_token = None, id_token = None,
                     expires_in = Some 3600\<rparr>"
  have a: "\<And>rt. session (?st rt) = Some (expired_session rt)" by simp
  have b: "\<And>rt. (1000::int) \<le> cookieExpiresAt (expired_session rt)"
    by (simp add: expired_session_def)
  have c: "\<And>rt. expiresAt (payload (expired_session rt)) = Some 999"
    by (simp add: expired_session_def)
  have d: "(999::int) < 1000" by simp
  have e: "0 \<le> clockTolerance test_config" by (simp add: test_config_def)
  have n: "refreshToken (payload (expired_session None)) = None"
    by (simp add: expired_session_def)
  have r: "refreshToken (payload (expired_session (Some ''refresh-1''))) = Some ''refresh-1''"
    by (simp add: expired_session_def)
  have s: "refresh test_oidc ''refresh-1''
             (remdups ((\<lambda>p. []) (payload (expired_session (Some ''refresh-1'')))
                       @ scopes \<lparr>scopes = []\<rparr>)) = Some ?tokens"
    by (simp add: test_oidc_def)
  note t1 = getAccessToken_expired [OF a b c d e, of None _ test_oidc "\<lambda>p. []" "\<lparr>scopes = []\<rparr>"]
  note t2 = getAccessToken_expired [OF a b c d e, of "Some ''refresh-1''" "''refresh-1''"
              test_oidc "\<lambda>p. []" "\<lparr>scopes = []\<rparr>" ?tokens]
  from t1 n have 1: "FlowController_getAccessToken test_oidc (\<lambda>p. []) test_config 1000
      \<lparr>scopes = []\<rparr> (?st None) = (Inl TokenExpired, ?st None)"
    by blast
  from t2 r s have 2: "fst (FlowController_getAccessToken test_oidc (\<lambda>p. []) test_config 1000
      \<lparr>scopes = []\<rparr> (?st (Some ''refresh-1''))) = Inr (access_token ?tokens)"
    by blast
  from t2 r have 3: "filter is_network_call (events (snd
        (FlowController_getAccessToken test_oidc (\<lambda>p. []) test_config 1000 \<lparr>scopes = []\<rparr>
          (?st (Some ''refresh-1'')))))
     = filter is_network_call (events (?st (Some ''refresh-1'')))
       @ [Refresh ''refresh-1'' (remdups ((\<lambda>p. []) (payload (expired_session (Some ''refresh-1'')))
                       @ scopes \<lparr>scopes = []\<rparr>))]"
    by blast
  from 1 2 3 show ?thesis by simp
qed

section \<open>The cookie codec reads back what it wrote\<close>

lemma digit_char_value: "d < 10 \<Longrightarrow> (of_char (digit_char d) :: nat) - 48 = d"
  by simp

lemma value_decimal: "foldl (\<lambda>a c. 10 * a + ((of_char c :: nat) - 48)) 0 (decimal n) = n"
proof (induction n rule: decimal.induct)
  case (1 n)
  show ?case
  proof (cases "n < 10")
    case True
    then show ?thesis by (subst decimal.simps) (simp add: digit_char_value del: digit_char.simps)
  next
    case False
    have "decimal n = decimal (n div 10) @ [digit_char (n mod 10)]"
      using False by (subst decimal.simps) simp
    then show ?thesis
      using 1 [OF False] by (simp add: digit_char_value del: digit_char.simps)
  qed
qed

lemma decimal_inj: "decimal i = decimal j \<Longrightarrow> i = j"
  by (metis value_decimal)

lemma chunk_name_inj: "chunk_name name i = chunk_name name j \<Longrightarrow> i = j"
  by (simp add: chunk_name_def decimal_inj)

lemma chunk_name_neq: "chunk_name name i \<noteq> name"
  by (simp add: chunk_name_def)

lemma concat_chunks: "0 < n \<Longrightarrow> concat (chunks n xs) = xs"
proof (induction n xs rule: chunks.induct)
  case (1 n xs)
  then show ?case by (subst chunks.simps) auto
qed

lemma chunks_nonempty: "0 < n \<Longrightarrow> xs \<noteq> [] \<Longrightarrow> chunks n xs \<noteq> []"
  by (subst chunks.simps) simp

lemma map_of_chunk_cookies:
  "map_of (map (\<lambda>(i, c). (chunk_name name i, c)) (enumerate k cs)) (chunk_name name j)
     = (if k \<le> j \<and> j < k + length cs then Some (cs ! (j - k)) else None)"
proof (induction cs arbitrary: k)
  case Nil
  then show ?case by simp
next
  case (Cons c cs)
  show ?case
  proof (cases "j = k")
    case True
    then show ?thesis by simp
  next
    case False
    then have "chunk_name name k \<noteq> chunk_name name j"
      using chunk_name_inj by blast
    then show ?thesis
      using False Cons.IH [of "Suc k"] by (auto simp: nth_Cons')
  qed
qed

lemma map_of_chunk_cookies_name:
  "map_of (map (\<lambda>(i, c). (chunk_name name i, c)) (enumerate k cs)) name = None"
  by (induction cs arbitrary: k) (simp_all add: chunk_name_neq chunk_name_neq [THEN not_sym])

lemma gather_chunk_cookies:
  "gather name (map (\<lambda>(i, c). (chunk_name name i, c)) (enumerate 0 cs)) = cs"
proof -
  let ?ck = "map (\<lambda>(i, c). (chunk_name name i, c)) (enumerate 0 cs)"
  have l: "length ?ck = length cs" by simp
  have tw: "takeWhile (\<lambda>i. map_of ?ck (chunk_name name i) \<noteq> None) [0..<length cs]
              = [0..<length cs]"
    by (rule takeWhile_eq_all_conv [THEN iffD2]) (simp add: map_of_chunk_cookies)
  have fl: "filter (\<lambda>i. map_of ?ck (chunk_name name i) \<noteq> None) [0..<length cs]
              = [0..<length cs]"
    by (rule filter_True) (simp add: map_of_chunk_cookies)
  have "map (the \<circ> (\<lambda>i. map_of ?ck (chunk_name name i))) [0..<length cs] = cs"
    by (rule nth_equalityI) (simp_all add: map_of_chunk_cookies)
  then show ?thesis
    unfolding gather_def l tw map_filter_def fl .
qed

text \<open>
  Claim C2, against the codec of the specification. With a cookie budget of at least one
  character and a cipher that gives back the expiry and the payload of the blob it made of
  this payload under the first secret, reading the cookies that \<open>CookieCodec_write\<close>
  produced, at any time up to their expiry, returns the payload, whether the blob fitted
  one cookie or was split into chunks. No bound on the size of the payload is needed.
\<close>

theorem CookieCodec_roundtrip:
  assumes "0 < budget"
    and "readTime \<le> now + maxAgeSeconds"
    and "expiry cipher (seal cipher newest (now + maxAgeSeconds) p) = Some (now + maxAgeSeconds)"
    and "unseal cipher (newest # older) (seal cipher newest (now + maxAgeSeconds) p) = Some p"
  shows "CookieCodec_read cipher name (newest # older) readTime
           (CookieCodec_write cipher budget name newest now p maxAgeSeconds) = Payload p"
proof (cases "length (seal cipher newest (now + maxAgeSeconds) p) \<le> budget")
  case True
  then show ?thesis
    using assms by (simp add: CookieCodec_read_def CookieCodec_write_def Let_def)
next
  case False
  let ?v = "seal cipher newest (now + maxAgeSeconds) p"
  let ?cs = "chunks budget ?v"
  from False assms(1) have "?v \<noteq> []" by auto
  then have ne: "?cs \<noteq> []" using assms(1) by (simp add: chunks_nonempty)
  have cc: "concat ?cs = ?v" using assms(1) by (simp add: concat_chunks)
  have w: "CookieCodec_write cipher budget name newest now p maxAgeSeconds
             = map (\<lambda>(i, c). (chunk_name name i, c)) (enumerate 0 ?cs)"
    using False by (simp add: CookieCodec_write_def Let_def)
  have g: "(case ?cs of [] \<Rightarrow> None | c # cs' \<Rightarrow> Some (concat (c # cs'))) = Some ?v"
    using ne cc by (cases ?cs) simp_all
  show ?thesis
    unfolding w CookieCodec_read_def Let_def map_of_chunk_cookies_name gather_chunk_cookies
    using g assms(2,3,4) by simp
qed

theorem CookieCodec_roundtrip_witness:
  "CookieCodec_write plain_cipher 4 ''appSession'' () 0 ''0123456789'' 100
     = [(''appSession.0'', ''0123''), (''appSession.1'', ''4567''), (''appSession.2'', ''89'')]
   \<and> CookieCodec_read plain_cipher ''appSession'' [()] 50
       (CookieCodec_write plain_cipher 4 ''appSession'' () 0 ''0123456789'' 100)
     = Payload ''0123456789''
   \<and> CookieCodec_read plain_cipher ''appSession'' [()] 50
       (CookieCodec_write plain_cipher 4096 ''appSession'' () 0 ''0123456789'' 100)
     = Payload ''0123456789''"
proof -
  have w: "CookieCodec_write plain_cipher 4 ''appSession'' () 0 ''0123456789'' 100
     = [(''appSession.0'', ''0123''), (''appSession.1'', ''4567''), (''appSession.2'', ''89'')]"
    by code_simp
  have e: "expiry plain_cipher (seal plain_cipher () (0 + 100) ''0123456789'') = Some (0 + 100)"
    and u: "unseal plain_cipher [()] (seal plain_cipher () (0 + 100) ''0123456789'')
              = Some ''0123456789''"
    by (simp_all add: plain_cipher_def)
  have m: "(50::int) \<le> 0 + 100" by simp
  have b4: "(0::nat) < 4" and b4096: "(0::nat) < 4096" by simp_all
  note r1 = CookieCodec_roundtrip [OF b4 m e u, of "''appSession''"]
  note r2 = CookieCodec_roundtrip [OF b4096 m e u, of "''appSession''"]
  from w r1 r2 show ?thesis by blast
qed

end
